theory Spec2Isabelle
  imports Complex_Main "HOL-Library.Monad_Syntax"
begin

section \<open>Trip state machine (backend/app/modules/trip_state_machine.py)\<close>

text \<open>
  A \<open>datetime\<close> of the program is naive (it carries no time zone) and has microsecond
  resolution; it is modelled as the integer count of microseconds from
  1970-01-01 00:00:00 of its own calendar. The difference of two datetimes is a
  \<open>timedelta\<close>, and \<open>total_seconds()\<close> divides its microseconds by \<open>10^6\<close>.
  Python floats are modelled as reals.
\<close>

type_synonym datetime = int

definition total_seconds :: "int \<Rightarrow> real" where
  "total_seconds td = real_of_int td / 1000000"

datatype TripState = IDLE | ACTIVE

record TripConfig =
  speed_threshold_kmh :: real
  duration_threshold_seconds :: int
  stop_duration_threshold_seconds :: int
  gps_collection_interval_seconds :: int

definition default_TripConfig :: TripConfig where
  "default_TripConfig =
     \<lparr>speed_threshold_kmh = 3, duration_threshold_seconds = 60,
      stop_duration_threshold_seconds = 60, gps_collection_interval_seconds = 45\<rparr>"

record SensorData =
  sd_speed_kmh :: real
  sd_latitude :: real
  sd_longitude :: real
  sd_accuracy :: real
  sd_timestamp :: datetime
  sd_activity_type :: "string option"

text \<open>
  A trip id is the string \<open>prefix_YYYYmmdd_HHMMSS_mmm\<close>: the prefix, and the clock
  reading formatted down to the microsecond with its last three digits cut off, which
  leaves milliseconds. It is represented by these two components.
\<close>

datatype trip_id = TripId (id_prefix: string) (id_stamp_ms: int)

record TripContext =
  trip_id :: "trip_id option"
  current_state :: TripState
  state_start_time :: "datetime option"
  last_sensor_data :: "SensorData option"
  speed_above_threshold_start :: "datetime option"
  speed_below_threshold_start :: "datetime option"

definition initial_TripContext :: TripContext where
  "initial_TripContext =
     \<lparr>trip_id = None, current_state = IDLE, state_start_time = None,
      last_sensor_data = None, speed_above_threshold_start = None,
      speed_below_threshold_start = None\<rparr>"

text \<open>
  The two callbacks are collaborators of the machine: a callback, when installed, is
  called with the trip id, and whether it returns or raises the machine only logs the
  outcome. The machine's record keeps the list of calls made (\<open>hook_calls\<close>). The wall
  clock is the sequence \<open>clock\<close> of the readings that successive calls of
  \<open>datetime.now()\<close> return, with \<open>clock_reads\<close> counting the readings taken so far.
\<close>

datatype hook_call = OnTripStart trip_id | OnTripStop trip_id

record TripStateMachine =
  config :: TripConfig
  ctx :: TripContext
  on_trip_start :: bool
  on_trip_stop :: bool
  hook_calls :: "hook_call list"
  clock :: "nat \<Rightarrow> datetime"
  clock_reads :: nat

definition new_TripStateMachine :: "TripConfig \<Rightarrow> (nat \<Rightarrow> datetime) \<Rightarrow> TripStateMachine" where
  "new_TripStateMachine cfg clk =
     \<lparr>config = cfg, ctx = initial_TripContext, on_trip_start = False,
      on_trip_stop = False, hook_calls = [], clock = clk, clock_reads = 0\<rparr>"

definition set_route_recorder_callbacks :: "TripStateMachine \<Rightarrow> TripStateMachine" where
  "set_route_recorder_callbacks m = m\<lparr>on_trip_start := True, on_trip_stop := True\<rparr>"

definition datetime_now :: "TripStateMachine \<Rightarrow> datetime \<times> TripStateMachine" where
  "datetime_now m = (clock m (clock_reads m), m\<lparr>clock_reads := Suc (clock_reads m)\<rparr>)"

definition generate_trip_id :: "string \<Rightarrow> TripStateMachine \<Rightarrow> trip_id \<times> TripStateMachine" where
  "generate_trip_id pre m =
     (case datetime_now m of (now, m') \<Rightarrow> (TripId pre (now div 1000), m'))"

definition transition_to_active :: "trip_id \<Rightarrow> TripStateMachine \<Rightarrow> TripStateMachine" where
  "transition_to_active tid m =
     (case datetime_now m of (now, m') \<Rightarrow>
        let m'' = m'\<lparr>ctx := (ctx m')
                     \<lparr>current_state := ACTIVE, trip_id := Some tid,
                      state_start_time := Some now,
                      speed_above_threshold_start := None,
                      speed_below_threshold_start := None\<rparr>\<rparr>
        in if on_trip_start m'' then m''\<lparr>hook_calls := hook_calls m'' @ [OnTripStart tid]\<rparr>
           else m'')"

definition transition_to_idle :: "TripStateMachine \<Rightarrow> TripStateMachine" where
  "transition_to_idle m =
     (let m1 = (case trip_id (ctx m) of
                  Some tid \<Rightarrow>
                    if on_trip_stop m then m\<lparr>hook_calls := hook_calls m @ [OnTripStop tid]\<rparr>
                    else m
                | None \<Rightarrow> m)
      in case datetime_now m1 of (now, m') \<Rightarrow>
           m'\<lparr>ctx := (ctx m')
                \<lparr>current_state := IDLE, trip_id := None,
                 state_start_time := Some now,
                 speed_above_threshold_start := None,
                 speed_below_threshold_start := None\<rparr>\<rparr>)"

definition manual_start_trip :: "string \<Rightarrow> TripStateMachine \<Rightarrow> trip_id option \<times> TripStateMachine" where
  "manual_start_trip user_id m =
     (if current_state (ctx m) = ACTIVE then (trip_id (ctx m), m)
      else case generate_trip_id user_id m of (tid, m') \<Rightarrow>
             (Some tid, transition_to_active tid m'))"

definition manual_stop_trip :: "TripStateMachine \<Rightarrow> bool \<times> TripStateMachine" where
  "manual_stop_trip m =
     (if current_state (ctx m) \<noteq> ACTIVE then (False, m)
      else (True, transition_to_idle m))"

text \<open>The handlers return the pair \<open>(state_changed, trigger)\<close> of their result dict.\<close>

definition handle_idle_state ::
  "SensorData \<Rightarrow> TripStateMachine \<Rightarrow> (bool \<times> string option) \<times> TripStateMachine" where
  "handle_idle_state sensor_data m =
     (if sd_speed_kmh sensor_data \<ge> speed_threshold_kmh (config m) then
        (case speed_above_threshold_start (ctx m) of
           None \<Rightarrow>
             ((False, None),
              m\<lparr>ctx := (ctx m)
                   \<lparr>speed_above_threshold_start := Some (sd_timestamp sensor_data)\<rparr>\<rparr>)
         | Some start \<Rightarrow>
             if total_seconds (sd_timestamp sensor_data - start)
                  \<ge> real_of_int (duration_threshold_seconds (config m))
             then (case generate_trip_id ''auto'' m of (tid, m') \<Rightarrow>
                     ((True, Some ''speed_duration_threshold''), transition_to_active tid m'))
             else ((False, None), m))
      else
        (case speed_above_threshold_start (ctx m) of
           None \<Rightarrow> ((False, None), m)
         | Some start \<Rightarrow>
             ((False, None), m\<lparr>ctx := (ctx m)\<lparr>speed_above_threshold_start := None\<rparr>\<rparr>)))"

definition handle_active_state ::
  "SensorData \<Rightarrow> TripStateMachine \<Rightarrow> (bool \<times> string option) \<times> TripStateMachine" where
  "handle_active_state sensor_data m =
     (if sd_speed_kmh sensor_data < speed_threshold_kmh (config m) then
        (case speed_below_threshold_start (ctx m) of
           None \<Rightarrow>
             ((False, None),
              m\<lparr>ctx := (ctx m)
                   \<lparr>speed_below_threshold_start := Some (sd_timestamp sensor_data)\<rparr>\<rparr>)
         | Some start \<Rightarrow>
             if total_seconds (sd_timestamp sensor_data - start)
                  \<ge> real_of_int (stop_duration_threshold_seconds (config m))
             then ((True, Some ''stop_duration_threshold''), transition_to_idle m)
             else ((False, None), m))
      else
        (case speed_below_threshold_start (ctx m) of
           None \<Rightarrow> ((False, None), m)
         | Some start \<Rightarrow>
             ((False, None), m\<lparr>ctx := (ctx m)\<lparr>speed_below_threshold_start := None\<rparr>\<rparr>)))"

definition get_state_duration_seconds :: "TripStateMachine \<Rightarrow> real \<times> TripStateMachine" where
  "get_state_duration_seconds m =
     (case state_start_time (ctx m) of
        Some start \<Rightarrow> (case datetime_now m of (now, m') \<Rightarrow> (total_seconds (now - start), m'))
      | None \<Rightarrow> (0, m))"

record StateResult =
  res_current_state :: TripState
  res_trip_id :: "trip_id option"
  res_state_duration_seconds :: real
  res_speed_kmh :: real
  res_activity_type :: "string option"
  res_state_changed :: bool
  res_trigger :: "string option"

definition process_sensor_data :: "SensorData \<Rightarrow> TripStateMachine \<Rightarrow> StateResult \<times> TripStateMachine" where
  "process_sensor_data sensor_data m =
     (let m0 = m\<lparr>ctx := (ctx m)\<lparr>last_sensor_data := Some sensor_data\<rparr>\<rparr> in
      case (case current_state (ctx m0) of
              IDLE \<Rightarrow> handle_idle_state sensor_data m0
            | ACTIVE \<Rightarrow> handle_active_state sensor_data m0) of
        ((changed, trigger), m1) \<Rightarrow>
          (case get_state_duration_seconds m1 of (dur, m2) \<Rightarrow>
             (\<lparr>res_current_state = current_state (ctx m2),
               res_trip_id = trip_id (ctx m2),
               res_state_duration_seconds = dur,
               res_speed_kmh = sd_speed_kmh sensor_data,
               res_activity_type = sd_activity_type sensor_data,
               res_state_changed = changed,
               res_trigger = trigger\<rparr>, m2)))"

text \<open>Feeding a sequence of samples, collecting the result of each call.\<close>

fun feed :: "SensorData list \<Rightarrow> TripStateMachine \<Rightarrow> StateResult list \<times> TripStateMachine" where
  "feed [] m = ([], m)"
| "feed (s # ss) m =
     (case process_sensor_data s m of (r, m') \<Rightarrow>
        (case feed ss m' of (rs, m'') \<Rightarrow> (r # rs, m'')))"

text \<open>The public operations of a machine, and a sequence of them.\<close>

datatype operation =
    ProcessSensorData SensorData
  | ManualStartTrip string
  | ManualStopTrip

fun apply_operation :: "operation \<Rightarrow> TripStateMachine \<Rightarrow> TripStateMachine" where
  "apply_operation (ProcessSensorData s) m = snd (process_sensor_data s m)"
| "apply_operation (ManualStartTrip user_id) m = snd (manual_start_trip user_id m)"
| "apply_operation ManualStopTrip m = snd (manual_stop_trip m)"

fun run_operations :: "operation list \<Rightarrow> TripStateMachine \<Rightarrow> TripStateMachine" where
  "run_operations [] m = m"
| "run_operations (x # xs) m = run_operations xs (apply_operation x m)"

definition trip_id_iff_active :: "TripStateMachine \<Rightarrow> bool" where
  "trip_id_iff_active m = ((trip_id (ctx m) \<noteq> None) = (current_state (ctx m) = ACTIVE))"

text \<open>A sample with a given speed and timestamp, at a fixed position, for examples.\<close>

definition sample :: "real \<Rightarrow> datetime \<Rightarrow> SensorData" where
  "sample v t = \<lparr>sd_speed_kmh = v, sd_latitude = 0, sd_longitude = 0, sd_accuracy = 5,
     sd_timestamp = t, sd_activity_type = None\<rparr>"

section \<open>Sensor processor (backend/app/modules/sensor_processor.py)\<close>

text \<open>
  Strings are ASCII character lists. \<open>str.upper()\<close> maps the letters \<open>a\<close> to \<open>z\<close> to
  capitals and leaves every other ASCII character as it is.
\<close>

definition upper_char :: "char \<Rightarrow> char" where
  "upper_char c =
     (case map_of (zip ''abcdefghijklmnopqrstuvwxyz'' ''ABCDEFGHIJKLMNOPQRSTUVWXYZ'') c of
        Some u \<Rightarrow> u
      | None \<Rightarrow> c)"

definition upper :: "string \<Rightarrow> string" where
  "upper s = map upper_char s"

datatype ActivityType =
  STILL | WALKING | RUNNING | IN_VEHICLE | ON_BICYCLE | ON_FOOT | TILTING | UNKNOWN

record RawSensorData =
  raw_user_id :: string
  raw_timestamp :: datetime
  raw_latitude :: real
  raw_longitude :: real
  raw_accuracy :: real
  raw_speed_mps :: "real option"
  raw_altitude :: "real option"
  raw_bearing :: "real option"
  raw_activity_type :: "string option"
  raw_activity_confidence :: "real option"
  raw_accelerometer_x :: "real option"
  raw_accelerometer_y :: "real option"
  raw_accelerometer_z :: "real option"
  raw_device_id :: "string option"
  raw_platform :: "string option"

record ProcessedSensorData =
  psd_user_id :: string
  psd_timestamp :: datetime
  psd_latitude :: real
  psd_longitude :: real
  psd_accuracy :: real
  psd_speed_kmh :: real
  psd_activity_type :: ActivityType
  psd_activity_confidence :: real
  psd_is_moving :: bool
  psd_movement_confidence :: real
  psd_location_quality :: string
  psd_altitude :: "real option"
  psd_bearing :: "real option"
  psd_motion_variance :: "real option"
  psd_is_stationary :: "bool option"

text \<open>The outcome of \<open>validate_gps_data\<close>: the flag and the message, by its kind.\<close>

datatype validation_message =
  Valid | InvalidLatitude | InvalidLongitude | PoorAccuracy real | UnrealisticSpeed real

definition validate_gps_data :: "RawSensorData \<Rightarrow> bool \<times> validation_message" where
  "validate_gps_data d =
     (if \<not> (-90 \<le> raw_latitude d \<and> raw_latitude d \<le> 90) then (False, InvalidLatitude)
      else if \<not> (-180 \<le> raw_longitude d \<and> raw_longitude d \<le> 180)
        then (False, InvalidLongitude)
      else if raw_accuracy d > 100 then (False, PoorAccuracy (raw_accuracy d))
      else case raw_speed_mps d of
             Some v \<Rightarrow>
               if v * 3.6 > 200 then (False, UnrealisticSpeed (v * 3.6)) else (True, Valid)
           | None \<Rightarrow> (True, Valid))"

definition get_location_quality :: "real \<Rightarrow> string" where
  "get_location_quality acc =
     (if acc \<le> 5 then ''excellent''
      else if acc \<le> 15 then ''good''
      else if acc \<le> 50 then ''fair''
      else ''poor'')"

definition activity_mapping :: "(string \<times> ActivityType) list" where
  "activity_mapping =
     [(''IN_VEHICLE'', IN_VEHICLE), (''ON_BICYCLE'', ON_BICYCLE), (''ON_FOOT'', ON_FOOT),
      (''RUNNING'', RUNNING), (''STILL'', STILL), (''TILTING'', TILTING),
      (''WALKING'', WALKING),
      (''automotive'', IN_VEHICLE), (''cycling'', ON_BICYCLE), (''running'', RUNNING),
      (''walking'', WALKING), (''stationary'', STILL),
      (''in_vehicle'', IN_VEHICLE), (''on_bicycle'', ON_BICYCLE), (''on_foot'', ON_FOOT),
      (''still'', STILL), (''unknown'', UNKNOWN)]"

text \<open>
  \<open>x or d\<close> on an optional float: \<open>d\<close> when \<open>x\<close> is \<open>None\<close> or zero, else \<open>x\<close>.
\<close>

definition float_or :: "real option \<Rightarrow> real \<Rightarrow> real" where
  "float_or x d = (case x of None \<Rightarrow> d | Some v \<Rightarrow> if v = 0 then d else v)"

definition process_activity :: "string option \<Rightarrow> real option \<Rightarrow> ActivityType \<times> real" where
  "process_activity activity_type confidence =
     (let key = (case activity_type of
                   None \<Rightarrow> ''UNKNOWN''
                 | Some a \<Rightarrow> if a = [] then ''UNKNOWN'' else upper a);
          normalized_activity = (case map_of activity_mapping key of
                                   Some a \<Rightarrow> a
                                 | None \<Rightarrow> UNKNOWN);
          normalized_confidence = max 0 (min 1 (float_or confidence (1/2)))
      in (normalized_activity, normalized_confidence))"

fun movement_activities :: "ActivityType \<Rightarrow> real" where
  "movement_activities IN_VEHICLE = 0.9"
| "movement_activities ON_BICYCLE = 0.9"
| "movement_activities RUNNING = 0.95"
| "movement_activities WALKING = 0.8"
| "movement_activities ON_FOOT = 0.7"
| "movement_activities STILL = 0.1"
| "movement_activities TILTING = 0.3"
| "movement_activities UNKNOWN = 0.5"

definition determine_movement_state :: "ActivityType \<Rightarrow> real \<Rightarrow> real \<Rightarrow> bool \<times> real" where
  "determine_movement_state activity confidence speed =
     (let activity_movement_score = movement_activities activity;
          speed_movement_score = min 1 (speed / 5);
          combined_score = activity_movement_score * confidence
                           + speed_movement_score * (1 - confidence)
      in (combined_score > 1/2, combined_score))"

text \<open>
  A \<open>deque(maxlen=n)\<close> is the list of its elements, oldest first; appending to a full
  deque drops the oldest element.
\<close>

definition deque_append :: "nat \<Rightarrow> 'a list \<Rightarrow> 'a \<Rightarrow> 'a list" where
  "deque_append maxlen d x = drop (Suc (length d) - maxlen) (d @ [x])"

definition mean :: "real list \<Rightarrow> real" where
  "mean xs = sum_list xs / real (length xs)"

text \<open>\<open>statistics.variance\<close>: the sample variance, for at least two values.\<close>

definition variance :: "real list \<Rightarrow> real" where
  "variance xs = sum_list (map (\<lambda>x. (x - mean xs)\<^sup>2) xs) / real (length xs - 1)"

text \<open>
  A motion analyzer is its history window (at most 10 entries); of an entry the
  magnitude and the three components are kept.
\<close>

record MotionEntry =
  me_magnitude :: real
  me_x :: real
  me_y :: real
  me_z :: real

type_synonym MotionAnalyzer = "MotionEntry list"

text \<open>
  The power \<open>x ** 2\<close> of a float raises \<open>OverflowError\<close> when the square rounds beyond
  the greatest double, that is from \<open>2^1024 - 2^970\<close> on; \<open>add_motion_data\<close> then
  raises (\<open>None\<close>) before the history is touched. The other float operations of the
  processor do not raise.
\<close>

definition float_overflows :: "real \<Rightarrow> bool" where
  "float_overflows y = (\<bar>y\<bar> \<ge> 2 ^ 1024 - 2 ^ 970)"

definition add_motion_data ::
  "real \<Rightarrow> real \<Rightarrow> real \<Rightarrow> MotionAnalyzer \<Rightarrow> MotionAnalyzer option" where
  "add_motion_data ax ay az h =
     (if float_overflows (ax\<^sup>2) then None
      else if float_overflows (ay\<^sup>2) then None
      else if float_overflows (az\<^sup>2) then None
      else Some (deque_append 10 h
                   \<lparr>me_magnitude = sqrt (ax\<^sup>2 + ay\<^sup>2 + az\<^sup>2), me_x = ax, me_y = ay,
                    me_z = az\<rparr>))"

definition calculate_motion_variance :: "MotionAnalyzer \<Rightarrow> real option" where
  "calculate_motion_variance h =
     (if length h < 3 then None else Some (variance (map me_magnitude h)))"

definition is_stationary :: "MotionAnalyzer \<Rightarrow> bool option" where
  "is_stationary h =
     (case calculate_motion_variance h of None \<Rightarrow> None | Some v \<Rightarrow> Some (v < 1/2))"

record SensorDataProcessor =
  speed_windows :: "string \<rightharpoonup> real list"
  motion_analyzers :: "string \<rightharpoonup> MotionAnalyzer"

definition new_SensorDataProcessor :: SensorDataProcessor where
  "new_SensorDataProcessor = \<lparr>speed_windows = Map.empty, motion_analyzers = Map.empty\<rparr>"

definition speed_smoothing_window :: nat where
  "speed_smoothing_window = 5"

definition process_speed :: "RawSensorData \<Rightarrow> SensorDataProcessor \<Rightarrow> real \<times> SensorDataProcessor" where
  "process_speed raw_data p =
     (let user_id = raw_user_id raw_data;
          current_speed_kmh = float_or (raw_speed_mps raw_data) 0 * 3.6;
          window = (case speed_windows p user_id of None \<Rightarrow> [] | Some w \<Rightarrow> w);
          speeds = deque_append speed_smoothing_window window current_speed_kmh
      in (if speeds \<noteq> [] then sum_list speeds / real (length speeds) else 0,
          p\<lparr>speed_windows := (speed_windows p)(user_id \<mapsto> speeds)\<rparr>))"

text \<open>
  \<open>_process_motion_data\<close>: the user's analyzer is created if there is none, then the
  reading is added; \<open>None\<close> as result stands for the exception of \<open>add_motion_data\<close>.
\<close>

definition process_motion_data ::
  "real \<Rightarrow> real \<Rightarrow> real \<Rightarrow> string \<Rightarrow> SensorDataProcessor
     \<Rightarrow> (real option \<times> bool option) option \<times> SensorDataProcessor" where
  "process_motion_data ax ay az user_id p =
     (let analyzer = (case motion_analyzers p user_id of None \<Rightarrow> [] | Some h \<Rightarrow> h);
          p0 = p\<lparr>motion_analyzers := (motion_analyzers p)(user_id \<mapsto> analyzer)\<rparr>
      in case add_motion_data ax ay az analyzer of
           None \<Rightarrow> (None, p0)
         | Some analyzer' \<Rightarrow>
             (Some (calculate_motion_variance analyzer', is_stationary analyzer'),
              p\<lparr>motion_analyzers := (motion_analyzers p)(user_id \<mapsto> analyzer')\<rparr>))"

text \<open>
  \<open>SensorDataProcessor.process_sensor_data\<close>; the state machine has a method of the same
  name, so this one carries its class name. The body is inside \<open>try\<close>: an exception of
  the motion step is logged and \<open>None\<close> is returned, with the speed window already
  updated.
\<close>

definition SensorDataProcessor_process_sensor_data ::
  "RawSensorData \<Rightarrow> SensorDataProcessor \<Rightarrow> ProcessedSensorData option \<times> SensorDataProcessor" where
  "SensorDataProcessor_process_sensor_data raw_data p =
     (if \<not> fst (validate_gps_data raw_data) then (None, p)
      else
        case process_speed raw_data p of (speed, p1) \<Rightarrow>
        case process_activity (raw_activity_type raw_data) (raw_activity_confidence raw_data) of
          (activity, activity_conf) \<Rightarrow>
        case determine_movement_state activity activity_conf speed of
          (moving, movement_conf) \<Rightarrow>
        case (case (raw_accelerometer_x raw_data, raw_accelerometer_y raw_data,
                    raw_accelerometer_z raw_data) of
                (Some ax, Some ay, Some az) \<Rightarrow>
                  process_motion_data ax ay az (raw_user_id raw_data) p1
              | _ \<Rightarrow> (Some (None, None), p1)) of
          (None, p2) \<Rightarrow> (None, p2)
        | (Some (motion_var, stationary), p2) \<Rightarrow>
            (Some \<lparr>psd_user_id = raw_user_id raw_data,
                   psd_timestamp = raw_timestamp raw_data,
                   psd_latitude = raw_latitude raw_data,
                   psd_longitude = raw_longitude raw_data,
                   psd_accuracy = raw_accuracy raw_data,
                   psd_speed_kmh = speed,
                   psd_activity_type = activity,
                   psd_activity_confidence = activity_conf,
                   psd_is_moving = moving,
                   psd_movement_confidence = movement_conf,
                   psd_location_quality = get_location_quality (raw_accuracy raw_data),
                   psd_altitude = raw_altitude raw_data,
                   psd_bearing = raw_bearing raw_data,
                   psd_motion_variance = motion_var,
                   psd_is_stationary = stationary\<rparr>, p2))"

text \<open>
  For examples: a raw sample of a user with the given optional speed and activity label,
  and the same with an accelerometer reading.
\<close>

definition raw_sample :: "string \<Rightarrow> real option \<Rightarrow> string option \<Rightarrow> RawSensorData" where
  "raw_sample u v a =
     \<lparr>raw_user_id = u, raw_timestamp = 0, raw_latitude = 0, raw_longitude = 0,
      raw_accuracy = 5, raw_speed_mps = v, raw_altitude = None, raw_bearing = None,
      raw_activity_type = a, raw_activity_confidence = None,
      raw_accelerometer_x = None, raw_accelerometer_y = None, raw_accelerometer_z = None,
      raw_device_id = None, raw_platform = None\<rparr>"

definition with_accelerometer :: "real \<Rightarrow> real \<Rightarrow> real \<Rightarrow> RawSensorData \<Rightarrow> RawSensorData" where
  "with_accelerometer ax ay az d =
     d\<lparr>raw_accelerometer_x := Some ax, raw_accelerometer_y := Some ay,
       raw_accelerometer_z := Some az\<rparr>"

text \<open>An accelerometer reading, a float, whose square is beyond the doubles.\<close>

definition huge_reading :: real where
  "huge_reading = 10 ^ 200"

text \<open>The samples on which the motion step raises: an accelerometer triple with a
  component whose square overflows.\<close>

definition motion_step_raises :: "RawSensorData \<Rightarrow> bool" where
  "motion_step_raises d =
     (case (raw_accelerometer_x d, raw_accelerometer_y d, raw_accelerometer_z d) of
        (Some ax, Some ay, Some az) \<Rightarrow>
          float_overflows (ax\<^sup>2) \<or> float_overflows (ay\<^sup>2) \<or> float_overflows (az\<^sup>2)
      | _ \<Rightarrow> False)"

section \<open>Route recorder (backend/app/modules/route_recorder.py)\<close>

record GPSPoint =
  gp_latitude :: real
  gp_longitude :: real
  gp_timestamp :: datetime
  gp_accuracy :: real
  gp_speed_kmh :: "real option"
  gp_altitude :: "real option"
  gp_bearing :: "real option"

record TripRecord =
  tr_trip_id :: trip_id
  tr_user_id :: string
  tr_start_time :: datetime
  tr_end_time :: "datetime option"
  tr_gps_points :: "GPSPoint list"
  tr_total_distance_km :: "real option"
  tr_duration_minutes :: "int option"
  tr_status :: string

record RecorderConfig =
  gps_collection_interval :: int
  max_accuracy_threshold :: real
  min_distance_filter :: real
  enable_snap_to_roads :: bool
  batch_size :: int

definition default_RecorderConfig :: RecorderConfig where
  "default_RecorderConfig =
     \<lparr>gps_collection_interval = 45, max_accuracy_threshold = 50, min_distance_filter = 10,
      enable_snap_to_roads = True, batch_size = 100\<rparr>"


text \<open>
  \<open>datetime.fromtimestamp(t)\<close> rounds \<open>t\<close> to microseconds, half to even, asks the
  platform's \<open>localtime\<close> for the local time of the whole second, and builds the naive
  local datetime. It raises when \<open>localtime\<close> rejects the second, and when the local
  year is outside 1 to 9999; \<open>None\<close> stands for both. The platform's \<open>localtime\<close> is
  the parameter \<open>lt\<close>: for an epoch second, the offset of local time from UTC in
  seconds, or \<open>None\<close> where it fails.
\<close>

type_synonym localtime = "int \<Rightarrow> int option"

definition round_half_even :: "real \<Rightarrow> int" where
  "round_half_even x =
     (let f = \<lfloor>x\<rfloor> in
      if x - real_of_int f < 1/2 then f
      else if x - real_of_int f > 1/2 then f + 1
      else if even f then f else f + 1)"

definition datetime_min :: datetime where
  "datetime_min = - 62135596800000000"

definition datetime_max :: datetime where
  "datetime_max = 253402300799999999"

definition datetime_fromtimestamp :: "localtime \<Rightarrow> real \<Rightarrow> datetime option" where
  "datetime_fromtimestamp lt t =
     (let us = round_half_even (t * 1000000) in
      case lt (us div 1000000) of
        None \<Rightarrow> None
      | Some utc_offset \<Rightarrow>
          let local = us + utc_offset * 1000000 in
          if datetime_min \<le> local \<and> local \<le> datetime_max then Some local else None)"

text \<open>For examples: a platform whose local time is UTC and whose \<open>localtime\<close> never fails.\<close>

definition utc_localtime :: localtime where
  "utc_localtime s = Some 0"

text \<open>
  \<open>geopy.distance.geodesic(coord1, coord2).meters\<close> is a library function: the recorder's
  functions take it as the parameter \<open>geo\<close>, from two (latitude, longitude) pairs to
  metres.
\<close>

type_synonym geodesic = "real \<times> real \<Rightarrow> real \<times> real \<Rightarrow> real"

text \<open>
  The recorder: its configuration, the open trips, and the batches handed to the
  persistence collaborator's \<open>save_gps_points_batch\<close>. The heartbeat tasks are left out.
\<close>

record RouteRecorder =
  rr_config :: RecorderConfig
  active_trips :: "trip_id \<rightharpoonup> TripRecord"
  saved_batches :: "(trip_id \<times> GPSPoint list) list"

definition new_RouteRecorder :: "RecorderConfig \<Rightarrow> RouteRecorder" where
  "new_RouteRecorder cfg = \<lparr>rr_config = cfg, active_trips = Map.empty, saved_batches = []\<rparr>"

definition start_recording ::
  "datetime \<Rightarrow> trip_id \<Rightarrow> string option \<Rightarrow> RouteRecorder \<Rightarrow> bool \<times> RouteRecorder" where
  "start_recording now tid user_id r =
     (case active_trips r tid of
        Some tr \<Rightarrow> (False, r)
      | None \<Rightarrow>
          let uid = (case user_id of
                       Some u \<Rightarrow> if u = [] then takeWhile (\<lambda>c. c \<noteq> CHR ''_'') (id_prefix tid)
                                 else u
                     | None \<Rightarrow> takeWhile (\<lambda>c. c \<noteq> CHR ''_'') (id_prefix tid));
              trip_record = \<lparr>tr_trip_id = tid, tr_user_id = uid, tr_start_time = now,
                             tr_end_time = None, tr_gps_points = [],
                             tr_total_distance_km = None, tr_duration_minutes = None,
                             tr_status = ''recording''\<rparr>
          in (True, r\<lparr>active_trips := (active_trips r)(tid \<mapsto> trip_record)\<rparr>))"


definition calculate_distance_between_points :: "geodesic \<Rightarrow> GPSPoint \<Rightarrow> GPSPoint \<Rightarrow> real" where
  "calculate_distance_between_points geo point1 point2 =
     geo (gp_latitude point1, gp_longitude point1) (gp_latitude point2, gp_longitude point2)"



text \<open>The loop of \<open>_calculate_distance\<close> over the consecutive pairs, with its running total.\<close>

fun distance_loop :: "geodesic \<Rightarrow> GPSPoint list \<Rightarrow> real \<Rightarrow> real" where
  "distance_loop geo (prev_point # curr_point # rest) total_distance =
     (let distance_meters = geo (gp_latitude prev_point, gp_longitude prev_point)
                                (gp_latitude curr_point, gp_longitude curr_point)
      in distance_loop geo (curr_point # rest)
           (if distance_meters < 1000 then total_distance + distance_meters
            else total_distance))"
| "distance_loop geo [p] total_distance = total_distance"
| "distance_loop geo [] total_distance = total_distance"

definition calculate_distance :: "geodesic \<Rightarrow> GPSPoint list \<Rightarrow> real" where
  "calculate_distance geo gps_points =
     (if length gps_points < 2 then 0 else distance_loop geo gps_points 0 / 1000)"

definition post_process_trip :: "geodesic \<Rightarrow> TripRecord \<Rightarrow> TripRecord" where
  "post_process_trip geo trip_record =
     (let tr1 = (if tr_gps_points trip_record \<noteq> []
                 then trip_record\<lparr>tr_total_distance_km :=
                        Some (calculate_distance geo (tr_gps_points trip_record))\<rparr>
                 else trip_record)
      in tr1\<lparr>tr_status := ''completed''\<rparr>)"

text \<open>
  The trip data that \<open>_save_trip_to_database\<close> builds and \<open>stop_recording\<close> returns; the
  identifier strings formatted from the start time and the constant mode and purpose
  are left out. The persistence collaborator's \<open>save_trip_record\<close> returns a flag or
  raises; when it raises the result is the empty dict.
\<close>

record TripData =
  td_user_id :: string
  td_start_time :: datetime
  td_end_time :: "datetime option"
  td_duration_minutes :: int
  td_total_distance_km :: real
  td_start_latitude :: real
  td_start_longitude :: real
  td_end_latitude :: real
  td_end_longitude :: real
  td_gps_points_count :: nat
  td_status :: string

datatype db_outcome = Saved | NotSaved | Raised

definition save_trip_to_database :: "db_outcome \<Rightarrow> TripRecord \<Rightarrow> TripData option" where
  "save_trip_to_database db trip_record =
     (if db = Raised then None
      else
        let pts = tr_gps_points trip_record in
        Some \<lparr>td_user_id = tr_user_id trip_record,
              td_start_time = tr_start_time trip_record,
              td_end_time = tr_end_time trip_record,
              td_duration_minutes =
                (case tr_duration_minutes trip_record of None \<Rightarrow> 0 | Some d \<Rightarrow> d),
              td_total_distance_km = float_or (tr_total_distance_km trip_record) 0,
              td_start_latitude = (if pts = [] then 0 else gp_latitude (hd pts)),
              td_start_longitude = (if pts = [] then 0 else gp_longitude (hd pts)),
              td_end_latitude = (if pts = [] then 0 else gp_latitude (last pts)),
              td_end_longitude = (if pts = [] then 0 else gp_longitude (last pts)),
              td_gps_points_count = length pts,
              td_status = tr_status trip_record\<rparr>)"

text \<open>\<open>int(x)\<close> on a float truncates towards zero.\<close>

definition py_int :: "real \<Rightarrow> int" where
  "py_int x = (if x \<ge> 0 then \<lfloor>x\<rfloor> else \<lceil>x\<rceil>)"

text \<open>
  \<open>stop_recording\<close>: \<open>None\<close> when the trip is not open, else the trip data (\<open>Some None\<close>
  stands for the empty dict).
\<close>

definition stop_recording ::
  "geodesic \<Rightarrow> datetime \<Rightarrow> db_outcome \<Rightarrow> trip_id \<Rightarrow> RouteRecorder
     \<Rightarrow> TripData option option \<times> RouteRecorder" where
  "stop_recording geo now db tid r =
     (case active_trips r tid of
        None \<Rightarrow> (None, r)
      | Some trip_record \<Rightarrow>
          let tr1 = trip_record\<lparr>tr_end_time := Some now, tr_status := ''processing''\<rparr>;
              tr2 = tr1\<lparr>tr_duration_minutes :=
                          Some (py_int (total_seconds (now - tr_start_time tr1) / 60))\<rparr>;
              tr3 = post_process_trip geo tr2;
              trip_data = save_trip_to_database db tr3
          in (Some trip_data, r\<lparr>active_trips := (active_trips r)(tid := None)\<rparr>))"




fun segment_lengths :: "geodesic \<Rightarrow> GPSPoint list \<Rightarrow> real list" where
  "segment_lengths geo (p # q # ps) =
     calculate_distance_between_points geo p q # segment_lengths geo (q # ps)"
| "segment_lengths geo [p] = []"
| "segment_lengths geo [] = []"

text \<open>
  For examples: between two points of the equator less than half a turn apart the
  WGS-84 geodesic is the arc of the equator, 111319.49 m per degree of longitude (to
  the centimetre). The example points are all on the equator.
\<close>

definition equator_geodesic :: geodesic where
  "equator_geodesic a b = 111319.49 * \<bar>snd b - snd a\<bar>"


definition point_at :: "real \<Rightarrow> GPSPoint" where
  "point_at lon =
     \<lparr>gp_latitude = 0, gp_longitude = lon, gp_timestamp = 0, gp_accuracy = 5,
      gp_speed_kmh = None, gp_altitude = None, gp_bearing = None\<rparr>"

text \<open>For examples: a recorder whose only open trip is \<open>u1_0\<close>, with a given buffer.\<close>

definition open_trip :: "GPSPoint list \<Rightarrow> TripRecord" where
  "open_trip ps =
     \<lparr>tr_trip_id = TripId ''u1'' 0, tr_user_id = ''u1'', tr_start_time = 0,
      tr_end_time = None, tr_gps_points = ps, tr_total_distance_km = None,
      tr_duration_minutes = None, tr_status = ''recording''\<rparr>"

definition recorder_with :: "GPSPoint list \<Rightarrow> RouteRecorder" where
  "recorder_with ps =
     \<lparr>rr_config = default_RecorderConfig, active_trips = [TripId ''u1'' 0 \<mapsto> open_trip ps],
      saved_batches = []\<rparr>"

section \<open>Feature extraction and mode classifier (backend/app/modules/ml_backend.py)\<close>

datatype TransportMode =
  M_WALKING | M_RUNNING | M_CYCLING | M_CAR | M_BUS | M_TRAIN | M_METRO | M_STATIONARY
  | M_UNKNOWN

text \<open>\<open>TransportMode(value)\<close>: the member with that value; a \<open>ValueError\<close> is \<open>None\<close>.\<close>

definition TransportMode_of_value :: "string \<Rightarrow> TransportMode option" where
  "TransportMode_of_value =
     map_of [(''walking'', M_WALKING), (''running'', M_RUNNING), (''cycling'', M_CYCLING),
             (''car'', M_CAR), (''bus'', M_BUS), (''train'', M_TRAIN), (''metro'', M_METRO),
             (''stationary'', M_STATIONARY), (''unknown'', M_UNKNOWN)]"

record MLFeatures =
  avg_speed_kmh :: real
  max_speed_kmh :: real
  speed_variance :: real
  speed_percentile_95 :: real
  avg_acceleration :: real
  max_acceleration :: real
  acceleration_variance :: real
  stop_frequency :: real
  direction_changes :: int
  distance_straight_line :: real
  distance_actual :: real
  duration_minutes :: real
  time_of_day :: int
  day_of_week :: int
  activity_confidence :: real
  activity_consistency :: real
  avg_accuracy :: real
  gps_point_count :: int
  motion_variance :: "real option"
  stationary_periods :: "int option"

text \<open>
  The keyword dicts that the \<open>_extract_*\<close> methods return are lists of keys with their
  values, a value being a float or an int.
\<close>

datatype pyval = PyFloat real | PyInt int

fun real_of_pyval :: "pyval \<Rightarrow> real" where
  "real_of_pyval (PyFloat x) = x"
| "real_of_pyval (PyInt n) = real_of_int n"

fun int_of_pyval :: "pyval \<Rightarrow> int" where
  "int_of_pyval (PyInt n) = n"
| "int_of_pyval (PyFloat x) = \<lfloor>x\<rfloor>"

text \<open>
  \<open>MLFeatures(**d1, **d2, ...)\<close> on the concatenation of the dicts: a key given twice, a
  key that is no field, or a missing field without a default raises \<open>TypeError\<close>
  (\<open>None\<close>).
\<close>

definition MLFeatures_fields :: "string list" where
  "MLFeatures_fields =
     [''avg_speed_kmh'', ''max_speed_kmh'', ''speed_variance'', ''speed_percentile_95'',
      ''avg_acceleration'', ''max_acceleration'', ''acceleration_variance'',
      ''stop_frequency'', ''direction_changes'', ''distance_straight_line'',
      ''distance_actual'', ''duration_minutes'', ''time_of_day'', ''day_of_week'',
      ''activity_confidence'', ''activity_consistency'', ''avg_accuracy'',
      ''gps_point_count'', ''motion_variance'', ''stationary_periods'']"

definition new_MLFeatures :: "(string \<times> pyval) list \<Rightarrow> MLFeatures option" where
  "new_MLFeatures kw =
     (if distinct (map fst kw) then
        if list_all (\<lambda>k. k \<in> set MLFeatures_fields) (map fst kw) then
          do {
            v1 \<leftarrow> map_of kw ''avg_speed_kmh'';
            v2 \<leftarrow> map_of kw ''max_speed_kmh'';
            v3 \<leftarrow> map_of kw ''speed_variance'';
            v4 \<leftarrow> map_of kw ''speed_percentile_95'';
            v5 \<leftarrow> map_of kw ''avg_acceleration'';
            v6 \<leftarrow> map_of kw ''max_acceleration'';
            v7 \<leftarrow> map_of kw ''acceleration_variance'';
            v8 \<leftarrow> map_of kw ''stop_frequency'';
            v9 \<leftarrow> map_of kw ''direction_changes'';
            v10 \<leftarrow> map_of kw ''distance_straight_line'';
            v11 \<leftarrow> map_of kw ''distance_actual'';
            v12 \<leftarrow> map_of kw ''duration_minutes'';
            v13 \<leftarrow> map_of kw ''time_of_day'';
            v14 \<leftarrow> map_of kw ''day_of_week'';
            v15 \<leftarrow> map_of kw ''activity_confidence'';
            v16 \<leftarrow> map_of kw ''activity_consistency'';
            v17 \<leftarrow> map_of kw ''avg_accuracy'';
            v18 \<leftarrow> map_of kw ''gps_point_count'';
            Some \<lparr>avg_speed_kmh = real_of_pyval v1, max_speed_kmh = real_of_pyval v2,
                  speed_variance = real_of_pyval v3, speed_percentile_95 = real_of_pyval v4,
                  avg_acceleration = real_of_pyval v5, max_acceleration = real_of_pyval v6,
                  acceleration_variance = real_of_pyval v7, stop_frequency = real_of_pyval v8,
                  direction_changes = int_of_pyval v9,
                  distance_straight_line = real_of_pyval v10,
                  distance_actual = real_of_pyval v11, duration_minutes = real_of_pyval v12,
                  time_of_day = int_of_pyval v13, day_of_week = int_of_pyval v14,
                  activity_confidence = real_of_pyval v15,
                  activity_consistency = real_of_pyval v16,
                  avg_accuracy = real_of_pyval v17, gps_point_count = int_of_pyval v18,
                  motion_variance = map_option real_of_pyval (map_of kw ''motion_variance''),
                  stationary_periods =
                    map_option int_of_pyval (map_of kw ''stationary_periods'')\<rparr>
          }
        else None
      else None)"

text \<open>
  A GPS point or a sensor reading is a dict: a key is absent, holds \<open>None\<close>, or holds a
  number. \<open>d.get(key, default)\<close> gives the default for an absent key and the value held
  otherwise; where the program computes with a \<open>None\<close> so obtained it raises
  \<open>TypeError\<close>, which is \<open>None\<close> in the functions below.
\<close>

datatype field = Absent | Null | Num real

fun get_num :: "field \<Rightarrow> real \<Rightarrow> real option" where
  "get_num Absent d = Some d"
| "get_num Null d = None"
| "get_num (Num x) d = Some x"

record PointDict =
  pd_latitude :: field
  pd_longitude :: field
  pd_timestamp :: field
  pd_speed_kmh :: field
  pd_accuracy :: field

record SensorDict =
  sn_accel_x :: field
  sn_accel_y :: field
  sn_accel_z :: field
  sn_activity_confidence :: field

definition radians :: "real \<Rightarrow> real" where
  "radians x = x * pi / 180"

definition degrees :: "real \<Rightarrow> real" where
  "degrees x = x * 180 / pi"

definition atan2 :: "real \<Rightarrow> real \<Rightarrow> real" where
  "atan2 y x =
     (if x > 0 then arctan (y / x)
      else if x < 0 then (if y \<ge> 0 then arctan (y / x) + pi else arctan (y / x) - pi)
      else if y > 0 then pi / 2
      else if y < 0 then - pi / 2
      else 0)"

text \<open>The float remainder \<open>x % m\<close> for a positive \<open>m\<close>.\<close>

definition float_mod :: "real \<Rightarrow> real \<Rightarrow> real" where
  "float_mod x m = x - m * real_of_int \<lfloor>x / m\<rfloor>"

definition haversine_distance :: "PointDict \<Rightarrow> PointDict \<Rightarrow> real option" where
  "haversine_distance point1 point2 =
     do {
       la1 \<leftarrow> get_num (pd_latitude point1) 0;
       lo1 \<leftarrow> get_num (pd_longitude point1) 0;
       la2 \<leftarrow> get_num (pd_latitude point2) 0;
       lo2 \<leftarrow> get_num (pd_longitude point2) 0;
       let lat1 = radians la1; lon1 = radians lo1; lat2 = radians la2; lon2 = radians lo2;
           dlat = lat2 - lat1; dlon = lon2 - lon1;
           a = (sin (dlat / 2))\<^sup>2 + cos lat1 * cos lat2 * (sin (dlon / 2))\<^sup>2;
           c = 2 * arcsin (sqrt a)
       in Some (c * 6371)
     }"

definition calculate_bearing :: "PointDict \<Rightarrow> PointDict \<Rightarrow> real option" where
  "calculate_bearing point1 point2 =
     do {
       la1 \<leftarrow> get_num (pd_latitude point1) 0;
       la2 \<leftarrow> get_num (pd_latitude point2) 0;
       lo1 \<leftarrow> get_num (pd_longitude point1) 0;
       lo2 \<leftarrow> get_num (pd_longitude point2) 0;
       let lat1 = radians la1; lat2 = radians la2; lon1 = radians lo1; lon2 = radians lo2;
           dlon = lon2 - lon1;
           y = sin dlon * cos lat2;
           x = cos lat1 * sin lat2 - sin lat1 * cos lat2 * cos dlon;
           bearing = degrees (atan2 y x)
       in Some (float_mod (bearing + 360) 360)
     }"

fun direction_changes_loop :: "PointDict list \<Rightarrow> int \<Rightarrow> int option" where
  "direction_changes_loop (p0 # p1 # p2 # rest) n =
     do {
       bearing1 \<leftarrow> calculate_bearing p0 p1;
       bearing2 \<leftarrow> calculate_bearing p1 p2;
       let angle_diff = \<bar>bearing2 - bearing1\<bar>;
           angle_diff' = (if angle_diff > 180 then 360 - angle_diff else angle_diff)
       in direction_changes_loop (p1 # p2 # rest) (if angle_diff' > 45 then n + 1 else n)
     }"
| "direction_changes_loop [p0, p1] n = Some n"
| "direction_changes_loop [p0] n = Some n"
| "direction_changes_loop [] n = Some n"

definition calculate_direction_changes :: "PointDict list \<Rightarrow> int option" where
  "calculate_direction_changes points =
     (if length points < 3 then Some 0 else direction_changes_loop points 0)"

fun actual_distance_loop :: "PointDict list \<Rightarrow> real \<Rightarrow> real option" where
  "actual_distance_loop (p0 # p1 # rest) total_distance =
     do {
       distance \<leftarrow> haversine_distance p0 p1;
       actual_distance_loop (p1 # rest) (total_distance + distance)
     }"
| "actual_distance_loop [p0] total_distance = Some total_distance"
| "actual_distance_loop [] total_distance = Some total_distance"

definition calculate_actual_distance :: "PointDict list \<Rightarrow> real option" where
  "calculate_actual_distance points =
     (if length points < 2 then Some 0 else actual_distance_loop points 0)"

definition calculate_straight_line_distance :: "PointDict list \<Rightarrow> real option" where
  "calculate_straight_line_distance points =
     (if length points < 2 then Some 0 else haversine_distance (hd points) (last points))"

definition calculate_duration_hours :: "PointDict list \<Rightarrow> real option" where
  "calculate_duration_hours points =
     (if length points < 2 then Some 0
      else do {
        start_time \<leftarrow> get_num (pd_timestamp (hd points)) 0;
        end_time \<leftarrow> get_num (pd_timestamp (last points)) 0;
        Some ((end_time - start_time) / 3600)
      })"

definition percentile :: "real list \<Rightarrow> nat \<Rightarrow> real" where
  "percentile data pct =
     (if data = [] then 0
      else let sorted_data = sort data;
               index = nat (py_int ((real pct / 100) * real (length sorted_data)))
           in sorted_data ! min index (length sorted_data - 1))"

text \<open>\<open>max\<close> of a list that is not empty.\<close>

definition list_max :: "real list \<Rightarrow> real" where
  "list_max xs = fold max (tl xs) (hd xs)"

fun accelerations_of :: "real list \<Rightarrow> real list" where
  "accelerations_of (s0 # s1 # rest) = (\<bar>s1 - s0\<bar> / 1) # accelerations_of (s1 # rest)"
| "accelerations_of [s0] = []"
| "accelerations_of [] = []"

fun present_values :: "field list \<Rightarrow> real list" where
  "present_values [] = []"
| "present_values (Num x # fs) = x # present_values fs"
| "present_values (f # fs) = present_values fs"

definition extract_speed_features :: "PointDict list \<Rightarrow> (string \<times> pyval) list" where
  "extract_speed_features points =
     (let speeds = present_values (map pd_speed_kmh points) in
      if speeds = [] then
        [(''avg_speed_kmh'', PyFloat 0), (''max_speed_kmh'', PyFloat 0),
         (''speed_variance'', PyFloat 0), (''speed_percentile_95'', PyFloat 0)]
      else
        let accelerations = accelerations_of speeds in
        [(''avg_speed_kmh'', PyFloat (mean speeds)),
         (''max_speed_kmh'', PyFloat (list_max speeds)),
         (''speed_variance'', PyFloat (if length speeds > 1 then variance speeds else 0)),
         (''speed_percentile_95'', PyFloat (percentile speeds 95)),
         (''avg_acceleration'',
            PyFloat (if accelerations \<noteq> [] then mean accelerations else 0)),
         (''max_acceleration'',
            PyFloat (if accelerations \<noteq> [] then list_max accelerations else 0)),
         (''acceleration_variance'',
            PyFloat (if length accelerations > 1 then variance accelerations else 0))])"

fun count_stops :: "PointDict list \<Rightarrow> int \<Rightarrow> int option" where
  "count_stops [] stop_count = Some stop_count"
| "count_stops (point # rest) stop_count =
     do {
       v \<leftarrow> get_num (pd_speed_kmh point) 0;
       count_stops rest (if v < 2 then stop_count + 1 else stop_count)
     }"

definition extract_movement_features :: "PointDict list \<Rightarrow> (string \<times> pyval) list option" where
  "extract_movement_features points =
     do {
       stop_count \<leftarrow> count_stops points 0;
       duration_hours \<leftarrow> calculate_duration_hours points;
       let stop_frequency =
             (if duration_hours > 0
              then PyFloat (real_of_int stop_count / (duration_hours * 60))
              else PyInt 0);
       direction_changes \<leftarrow> calculate_direction_changes points;
       distance_actual \<leftarrow> calculate_actual_distance points;
       distance_straight \<leftarrow> calculate_straight_line_distance points;
       Some [(''stop_frequency'', stop_frequency),
             (''direction_changes'', PyInt direction_changes),
             (''distance_actual'', PyFloat distance_actual),
             (''distance_straight_line'', PyFloat distance_straight)]
     }"

text \<open>
  The hour and the weekday (Monday is 0) of a naive datetime; day 0 of the count was a
  Thursday. The two datetimes are local, made by \<open>datetime.fromtimestamp\<close>, which may
  raise.
\<close>

definition datetime_hour :: "datetime \<Rightarrow> int" where
  "datetime_hour d = (d div 3600000000) mod 24"

definition datetime_weekday :: "datetime \<Rightarrow> int" where
  "datetime_weekday d = (d div 86400000000 + 3) mod 7"

definition extract_time_features ::
  "localtime \<Rightarrow> PointDict list \<Rightarrow> (string \<times> pyval) list option" where
  "extract_time_features lt points =
     (if points = [] then
        Some [(''duration_minutes'', PyFloat 0), (''time_of_day'', PyInt 0),
              (''day_of_week'', PyInt 0)]
      else do {
        t0 \<leftarrow> get_num (pd_timestamp (hd points)) 0;
        t1 \<leftarrow> get_num (pd_timestamp (last points)) 0;
        start_time \<leftarrow> datetime_fromtimestamp lt t0;
        end_time \<leftarrow> datetime_fromtimestamp lt t1;
        let duration = total_seconds (end_time - start_time) / 60
        in Some [(''duration_minutes'', PyFloat duration),
                 (''time_of_day'', PyInt (datetime_hour start_time)),
                 (''day_of_week'', PyInt (datetime_weekday start_time))]
      })"

definition extract_gps_features :: "PointDict list \<Rightarrow> (string \<times> pyval) list" where
  "extract_gps_features points =
     (let accuracies = present_values (map pd_accuracy points) in
      [(''avg_accuracy'', PyFloat (if accuracies \<noteq> [] then mean accuracies else 100)),
       (''gps_point_count'', PyInt (int (length points))),
       (''activity_confidence'', PyFloat (1/2)),
       (''activity_consistency'', PyFloat (1/2))])"

fun motion_values_of :: "SensorDict list \<Rightarrow> real list option" where
  "motion_values_of [] = Some []"
| "motion_values_of (d # ds) =
     (if sn_accel_x d \<noteq> Absent \<and> sn_accel_y d \<noteq> Absent \<and> sn_accel_z d \<noteq> Absent then
        do {
          x \<leftarrow> get_num (sn_accel_x d) 0;
          y \<leftarrow> get_num (sn_accel_y d) 0;
          z \<leftarrow> get_num (sn_accel_z d) 0;
          ms \<leftarrow> motion_values_of ds;
          Some (sqrt (x\<^sup>2 + y\<^sup>2 + z\<^sup>2) # ms)
        }
      else motion_values_of ds)"

fun confidences_of :: "SensorDict list \<Rightarrow> real list option" where
  "confidences_of [] = Some []"
| "confidences_of (d # ds) =
     do {
       c \<leftarrow> get_num (sn_activity_confidence d) (1/2);
       cs \<leftarrow> confidences_of ds;
       Some (c # cs)
     }"

definition extract_sensor_features :: "SensorDict list \<Rightarrow> (string \<times> pyval) list option" where
  "extract_sensor_features sensor_data =
     do {
       motion_values \<leftarrow> motion_values_of sensor_data;
       confidences \<leftarrow> confidences_of sensor_data;
       Some ((if motion_values \<noteq> []
              then [(''motion_variance'',
                     PyFloat (if length motion_values > 1 then variance motion_values else 0))]
              else []) @
             (if confidences \<noteq> []
              then [(''activity_confidence'', PyFloat (mean confidences))]
              else []))
     }"

text \<open>
  \<open>sorted(gps_points, key=timestamp)\<close>: a stable sort; with two or more points a key
  that is \<open>None\<close> is compared and raises.
\<close>

definition sort_by_timestamp :: "PointDict list \<Rightarrow> PointDict list option" where
  "sort_by_timestamp points =
     (if length points \<ge> 2 \<and> list_ex (\<lambda>p. pd_timestamp p = Null) points then None
      else Some (sort_key (\<lambda>p. case pd_timestamp p of Num t \<Rightarrow> t | _ \<Rightarrow> 0) points))"

definition extract_features ::
  "localtime \<Rightarrow> PointDict list \<Rightarrow> SensorDict list option \<Rightarrow> MLFeatures option" where
  "extract_features lt gps_points sensor_data =
     (if length gps_points < 10 then None
      else do {
        sorted_points \<leftarrow> sort_by_timestamp gps_points;
        let speed_features = extract_speed_features sorted_points;
        movement_features \<leftarrow> extract_movement_features sorted_points;
        time_features \<leftarrow> extract_time_features lt sorted_points;
        let gps_features = extract_gps_features sorted_points;
        sensor_features \<leftarrow> (case sensor_data of
                               None \<Rightarrow> Some []
                             | Some sd \<Rightarrow> if sd = [] then Some []
                                          else extract_sensor_features sd);
        new_MLFeatures (speed_features @ movement_features @ time_features @ gps_features
                        @ sensor_features)
      })"

text \<open>The rule tables of the classifier: a (min, max) range per mode.\<close>

definition speed_thresholds :: "(string \<times> real \<times> real) list" where
  "speed_thresholds =
     [(''walking'', (0, 8)), (''cycling'', (8, 25)), (''car'', (15, 120)),
      (''bus'', (10, 80)), (''train'', (30, 200))]"

definition acceleration_thresholds :: "(string \<times> real \<times> real) list" where
  "acceleration_thresholds =
     [(''walking'', (0, 2)), (''cycling'', (0, 3)), (''car'', (0, 5)),
      (''bus'', (0, 4)), (''train'', (0, 3))]"

definition stop_frequency_thresholds :: "(string \<times> real \<times> real) list" where
  "stop_frequency_thresholds =
     [(''walking'', (0, 10)), (''cycling'', (0, 5)), (''car'', (2, 20)),
      (''bus'', (5, 30)), (''train'', (1, 10))]"

definition score_in_range :: "real \<Rightarrow> real \<times> real \<Rightarrow> real" where
  "score_in_range val range_tuple =
     (case range_tuple of (min_val, max_val) \<Rightarrow>
        if min_val \<le> val \<and> val \<le> max_val then
          let range_size = max_val - min_val in
          if range_size = 0 then 1
          else
            let center = (min_val + max_val) / 2;
                distance_from_center = \<bar>val - center\<bar>;
                normalized_distance = distance_from_center / (range_size / 2)
            in max 0 (1 - normalized_distance)
        else
          let distance = (if val < min_val then min_val - val else val - max_val);
              penalty_range = (if val < min_val then min_val * 0.5 else max_val * 0.5)
          in if penalty_range = 0 then 0
             else max 0 (1 - distance / penalty_range))"

text \<open>A mode that is no key of a rule table raises \<open>KeyError\<close> (\<open>None\<close>).\<close>

definition calculate_mode_score :: "MLFeatures \<Rightarrow> string \<Rightarrow> real option" where
  "calculate_mode_score features mode =
     do {
       speed_range \<leftarrow> map_of speed_thresholds mode;
       let speed_score = score_in_range (avg_speed_kmh features) speed_range;
       accel_range \<leftarrow> map_of acceleration_thresholds mode;
       let accel_score = score_in_range (avg_acceleration features) accel_range;
       stop_range \<leftarrow> map_of stop_frequency_thresholds mode;
       let stop_score = score_in_range (stop_frequency features) stop_range;
       let score = 0 + speed_score * 0.4 + accel_score * 0.3 + stop_score * 0.3;
       let weight_sum = 0 + 0.4 + 0.3 + (0.3 :: real);
       Some (if weight_sum > 0 then score / weight_sum else 0)
     }"

text \<open>
  \<open>max(scores, key=scores.get)\<close> over the modes in insertion order: the first mode with
  the greatest score.
\<close>

fun first_max :: "(string \<times> real) list \<Rightarrow> string \<times> real \<Rightarrow> string \<times> real" where
  "first_max [] best = best"
| "first_max (x # xs) best = first_max xs (if snd x > snd best then x else best)"

fun mode_scores :: "MLFeatures \<Rightarrow> string list \<Rightarrow> (string \<times> real) list option" where
  "mode_scores features [] = Some []"
| "mode_scores features (mode # modes) =
     do {
       score \<leftarrow> calculate_mode_score features mode;
       rest \<leftarrow> mode_scores features modes;
       Some ((mode, score) # rest)
     }"

definition classify_transport_mode :: "MLFeatures \<Rightarrow> TransportMode \<times> real" where
  "classify_transport_mode features =
     (case mode_scores features [''walking'', ''cycling'', ''car'', ''bus'', ''train''] of
        None \<Rightarrow> (M_UNKNOWN, 0)
      | Some [] \<Rightarrow> (M_UNKNOWN, 0)
      | Some (s # scores) \<Rightarrow>
          (case first_max scores s of (best_mode, confidence) \<Rightarrow>
             (case TransportMode_of_value best_mode of
                None \<Rightarrow> (M_UNKNOWN, 0)
              | Some mode_enum \<Rightarrow> (mode_enum, confidence))))"

text \<open>
  The distance as the specification describes it (haversine, the great-circle formula
  with Earth radius 6371 km), in metres, to compare with the distance that the recorder
  calls.
\<close>

definition spec_great_circle_m :: geodesic where
  "spec_great_circle_m a b =
     (let lat1 = radians (fst a); lon1 = radians (snd a);
          lat2 = radians (fst b); lon2 = radians (snd b);
          dlat = lat2 - lat1; dlon = lon2 - lon1;
          h = (sin (dlat / 2))\<^sup>2 + cos lat1 * cos lat2 * (sin (dlon / 2))\<^sup>2
      in 2 * arcsin (sqrt h) * 6371 * 1000)"

text \<open>A point dict, for the properties and examples: no key of it used by the
  extraction holds \<open>None\<close>; its timestamp is one that \<open>datetime.fromtimestamp\<close>
  accepts; a point at a time, without and with a speed; a feature vector with a given
  mean speed, mean acceleration and stop frequency.\<close>

definition no_null :: "PointDict \<Rightarrow> bool" where
  "no_null p = (pd_latitude p \<noteq> Null \<and> pd_longitude p \<noteq> Null \<and> pd_timestamp p \<noteq> Null \<and>
                pd_speed_kmh p \<noteq> Null)"

definition timestamp_ok :: "localtime \<Rightarrow> PointDict \<Rightarrow> bool" where
  "timestamp_ok lt p =
     (case get_num (pd_timestamp p) 0 of
        None \<Rightarrow> False
      | Some t \<Rightarrow> datetime_fromtimestamp lt t \<noteq> None)"

definition plain_point :: "real \<Rightarrow> PointDict" where
  "plain_point t =
     \<lparr>pd_latitude = Num 0, pd_longitude = Num (t / 10000), pd_timestamp = Num t,
      pd_speed_kmh = Absent, pd_accuracy = Num 5\<rparr>"

definition moving_point :: "real \<Rightarrow> real \<Rightarrow> PointDict" where
  "moving_point t v = (plain_point t)\<lparr>pd_speed_kmh := Num v\<rparr>"

definition features_with :: "real \<Rightarrow> real \<Rightarrow> real \<Rightarrow> MLFeatures" where
  "features_with speed accel stops =
     \<lparr>avg_speed_kmh = speed, max_speed_kmh = speed, speed_variance = 0,
      speed_percentile_95 = speed, avg_acceleration = accel, max_acceleration = accel,
      acceleration_variance = 0, stop_frequency = stops, direction_changes = 0,
      distance_straight_line = 1, distance_actual = 1, duration_minutes = 12,
      time_of_day = 9, day_of_week = 0, activity_confidence = 1/2,
      activity_consistency = 1/2, avg_accuracy = 5, gps_point_count = 60,
      motion_variance = None, stationary_periods = None\<rparr>"


section \<open>Properties of the trip state machine\<close>

lemmas sm_defs = process_sensor_data_def handle_idle_state_def handle_active_state_def
  get_state_duration_seconds_def datetime_now_def generate_trip_id_def
  transition_to_active_def transition_to_idle_def Let_def

lemma feed_append:
  "feed (xs @ ys) m =
     (fst (feed xs m) @ fst (feed ys (snd (feed xs m))), snd (feed ys (snd (feed xs m))))"
  by (induction xs arbitrary: m) (auto split: prod.splits)

lemma idle_start_step:
  assumes "current_state (ctx m) = IDLE" "speed_above_threshold_start (ctx m) = None"
    "sd_speed_kmh s \<ge> speed_threshold_kmh (config m)"
  shows "res_state_changed (fst (process_sensor_data s m)) = False"
    "res_current_state (fst (process_sensor_data s m)) = IDLE"
    "config (snd (process_sensor_data s m)) = config m"
    "current_state (ctx (snd (process_sensor_data s m))) = IDLE"
    "speed_above_threshold_start (ctx (snd (process_sensor_data s m))) = Some (sd_timestamp s)"
  using assms by (simp_all add: sm_defs split: option.splits)

lemma idle_wait_step:
  assumes "current_state (ctx m) = IDLE" "speed_above_threshold_start (ctx m) = Some t0"
    "sd_speed_kmh s \<ge> speed_threshold_kmh (config m)"
    "total_seconds (sd_timestamp s - t0) < real_of_int (duration_threshold_seconds (config m))"
  shows "res_state_changed (fst (process_sensor_data s m)) = False"
    "res_current_state (fst (process_sensor_data s m)) = IDLE"
    "config (snd (process_sensor_data s m)) = config m"
    "current_state (ctx (snd (process_sensor_data s m))) = IDLE"
    "speed_above_threshold_start (ctx (snd (process_sensor_data s m))) = Some t0"
  using assms by (simp_all add: sm_defs split: option.splits)

lemma idle_fire_step:
  assumes "current_state (ctx m) = IDLE" "speed_above_threshold_start (ctx m) = Some t0"
    "sd_speed_kmh s \<ge> speed_threshold_kmh (config m)"
    "total_seconds (sd_timestamp s - t0) \<ge> real_of_int (duration_threshold_seconds (config m))"
  shows "res_state_changed (fst (process_sensor_data s m)) = True"
    "res_current_state (fst (process_sensor_data s m)) = ACTIVE"
    "config (snd (process_sensor_data s m)) = config m"
    "current_state (ctx (snd (process_sensor_data s m))) = ACTIVE"
  using assms by (simp_all add: sm_defs split: option.splits)

lemma idle_reset_step:
  assumes "current_state (ctx m) = IDLE"
    "sd_speed_kmh s < speed_threshold_kmh (config m)"
  shows "res_state_changed (fst (process_sensor_data s m)) = False"
    "res_current_state (fst (process_sensor_data s m)) = IDLE"
    "config (snd (process_sensor_data s m)) = config m"
    "current_state (ctx (snd (process_sensor_data s m))) = IDLE"
    "speed_above_threshold_start (ctx (snd (process_sensor_data s m))) = None"
  using assms by (simp_all add: sm_defs split: option.splits)

lemma active_stay_step:
  assumes "current_state (ctx m) = ACTIVE"
    "sd_speed_kmh s \<ge> speed_threshold_kmh (config m)"
  shows "res_state_changed (fst (process_sensor_data s m)) = False"
    "res_current_state (fst (process_sensor_data s m)) = ACTIVE"
    "config (snd (process_sensor_data s m)) = config m"
    "current_state (ctx (snd (process_sensor_data s m))) = ACTIVE"
  using assms by (simp_all add: sm_defs split: option.splits)

lemma feed_Cons:
  "feed (s # ss) m =
     (fst (process_sensor_data s m) # fst (feed ss (snd (process_sensor_data s m))),
      snd (feed ss (snd (process_sensor_data s m))))"
  by (simp split: prod.splits)

lemma idle_wait:
  assumes "current_state (ctx m) = IDLE" "speed_above_threshold_start (ctx m) = Some t0"
    "\<forall>x \<in> set xs. sd_speed_kmh x \<ge> speed_threshold_kmh (config m) \<and>
       total_seconds (sd_timestamp x - t0) < real_of_int (duration_threshold_seconds (config m))"
  shows "map res_state_changed (fst (feed xs m)) = replicate (length xs) False \<and>
    map res_current_state (fst (feed xs m)) = replicate (length xs) IDLE \<and>
    config (snd (feed xs m)) = config m \<and>
    current_state (ctx (snd (feed xs m))) = IDLE \<and>
    speed_above_threshold_start (ctx (snd (feed xs m))) = Some t0"
  using assms
proof (induction xs arbitrary: m)
  case Nil
  then show ?case by simp
next
  case (Cons x xs)
  let ?m = "snd (process_sensor_data x m)"
  have x: "sd_speed_kmh x \<ge> speed_threshold_kmh (config m)"
    "total_seconds (sd_timestamp x - t0) < real_of_int (duration_threshold_seconds (config m))"
    using Cons.prems(3) by simp_all
  note st = idle_wait_step[OF Cons.prems(1,2) x]
  have "\<forall>y \<in> set xs. sd_speed_kmh y \<ge> speed_threshold_kmh (config ?m) \<and>
       total_seconds (sd_timestamp y - t0) < real_of_int (duration_threshold_seconds (config ?m))"
    using Cons.prems(3) st(3) by simp
  from Cons.IH[OF st(4) st(5) this] st show ?case
    by (simp add: feed_Cons del: feed.simps(2))
qed

lemma active_stay:
  assumes "current_state (ctx m) = ACTIVE"
    "\<forall>x \<in> set xs. sd_speed_kmh x \<ge> speed_threshold_kmh (config m)"
  shows "map res_state_changed (fst (feed xs m)) = replicate (length xs) False \<and>
    map res_current_state (fst (feed xs m)) = replicate (length xs) ACTIVE"
  using assms
proof (induction xs arbitrary: m)
  case Nil
  then show ?case by simp
next
  case (Cons x xs)
  let ?m = "snd (process_sensor_data x m)"
  have x: "sd_speed_kmh x \<ge> speed_threshold_kmh (config m)"
    using Cons.prems(2) by simp
  note st = active_stay_step[OF Cons.prems(1) x]
  have "\<forall>y \<in> set xs. sd_speed_kmh y \<ge> speed_threshold_kmh (config ?m)"
    using Cons.prems(2) st(3) by simp
  from Cons.IH[OF st(4) this] st show ?case
    by (simp add: feed_Cons del: feed.simps(2))
qed

text \<open>
  Claim C1. A machine in Idle with no debounce timer running, thresholds 3.0 km/h and
  60 s, is fed samples that are all at or above the speed threshold: a first sample
  \<open>s0\<close> (which starts the timer), samples \<open>pre\<close> that come less than 60 s after
  \<open>s0\<close>, the first sample \<open>s\<close> that is at least 60 s after \<open>s0\<close>, and any further
  samples \<open>post\<close>. Then exactly one call reports a state change, the call for \<open>s\<close>;
  the machine is Idle up to it and Active from it on.
\<close>

theorem idle_to_active_exactly_once:
  assumes cfg: "speed_threshold_kmh (config m) = 3" "duration_threshold_seconds (config m) = 60"
    and idle: "current_state (ctx m) = IDLE" "speed_above_threshold_start (ctx m) = None"
    and fast: "\<forall>x \<in> set (s0 # pre @ s # post). sd_speed_kmh x \<ge> 3"
    and early: "\<forall>x \<in> set pre. sd_timestamp x < sd_timestamp s0 + 60000000"
    and late: "sd_timestamp s \<ge> sd_timestamp s0 + 60000000"
  shows "map res_state_changed (fst (feed (s0 # pre @ s # post) m))
           = replicate (Suc (length pre)) False @ True # replicate (length post) False \<and>
         map res_current_state (fst (feed (s0 # pre @ s # post) m))
           = replicate (Suc (length pre)) IDLE @ replicate (Suc (length post)) ACTIVE"
proof -
  let ?m1 = "snd (process_sensor_data s0 m)"
  let ?m2 = "snd (feed pre ?m1)"
  let ?m3 = "snd (process_sensor_data s ?m2)"
  have s0: "sd_speed_kmh s0 \<ge> speed_threshold_kmh (config m)" using fast cfg by simp
  note a = idle_start_step[OF idle s0]
  have "\<forall>x \<in> set pre. sd_speed_kmh x \<ge> speed_threshold_kmh (config ?m1) \<and>
       total_seconds (sd_timestamp x - sd_timestamp s0)
         < real_of_int (duration_threshold_seconds (config ?m1))"
    using fast early cfg a(3) by (auto simp: total_seconds_def)
  note b = idle_wait[OF a(4) a(5) this]
  have c2: "config ?m2 = config m" using a(3) b by simp
  have s: "sd_speed_kmh s \<ge> speed_threshold_kmh (config ?m2)"
    "total_seconds (sd_timestamp s - sd_timestamp s0)
       \<ge> real_of_int (duration_threshold_seconds (config ?m2))"
    using fast late cfg c2 by (auto simp: total_seconds_def)
  have b4: "current_state (ctx ?m2) = IDLE"
    and b5: "speed_above_threshold_start (ctx ?m2) = Some (sd_timestamp s0)"
    using b by simp_all
  note c = idle_fire_step[OF b4 b5 s]
  have "\<forall>x \<in> set post. sd_speed_kmh x \<ge> speed_threshold_kmh (config ?m3)"
    using fast cfg c2 c(3) by simp
  note d = active_stay[OF c(4) this]
  show ?thesis
    using a(1,2) b c(1,2) d
    by (simp add: feed_Cons feed_append replicate_append_same del: feed.simps(2))
qed



theorem idle_to_active_exactly_once_witness:
  "map res_state_changed
     (fst (feed [sample 5 0, sample 5 30000000, sample 5 60000000, sample 5 61000000]
        (new_TripStateMachine default_TripConfig (\<lambda>n. 0))))
     = [False, False, True, False] \<and>
   map res_current_state
     (fst (feed [sample 5 0, sample 5 30000000, sample 5 60000000, sample 5 61000000]
        (new_TripStateMachine default_TripConfig (\<lambda>n. 0))))
     = [IDLE, IDLE, ACTIVE, ACTIVE]"
  using idle_to_active_exactly_once
    [of "new_TripStateMachine default_TripConfig (\<lambda>n. 0)" "sample 5 0"
        "[sample 5 30000000]" "sample 5 60000000" "[sample 5 61000000]"]
  by (simp add: new_TripStateMachine_def default_TripConfig_def initial_TripContext_def
      sample_def)

text \<open>
  Claim C2. A machine in Idle with no debounce timer running, thresholds 3.0 km/h and
  60 s, is fed 119 samples at 1-second spacing from any instant \<open>t0\<close>: 59 at 5 km/h,
  one at 1 km/h, 59 at 5 km/h. No call reports a state change and the machine is Idle
  after every one of them; after the 60 samples up to the slow one the speed-above
  timer is unset.
\<close>

theorem single_dip_restarts_debounce:
  assumes cfg: "speed_threshold_kmh (config m) = 3" "duration_threshold_seconds (config m) = 60"
    and idle: "current_state (ctx m) = IDLE" "speed_above_threshold_start (ctx m) = None"
    and speeds: "map sd_speed_kmh xs = replicate 59 5 @ [1] @ replicate 59 5"
    and times: "map sd_timestamp xs = map (\<lambda>k. t0 + int k * 1000000) [0..<119]"
  shows "map res_state_changed (fst (feed xs m)) = replicate 119 False \<and>
         map res_current_state (fst (feed xs m)) = replicate 119 IDLE \<and>
         speed_above_threshold_start (ctx (snd (feed (take 60 xs) m))) = None"
proof -
  have len: "length xs = 119"
    using arg_cong[OF times, of length] by simp
  have sp: "sd_speed_kmh (xs ! i) = (if i = 59 then 1 else 5)" if "i < 119" for i
  proof -
    have "sd_speed_kmh (xs ! i) = map sd_speed_kmh xs ! i"
      using that len by simp
    also have "\<dots> = (if i = 59 then 1 else 5)"
      unfolding speeds using that by (auto simp: nth_append nth_Cons')
    finally show ?thesis .
  qed
  have ts: "sd_timestamp (xs ! i) = t0 + int i * 1000000" if "i < 119" for i
  proof -
    have "sd_timestamp (xs ! i) = map sd_timestamp xs ! i"
      using that len by simp
    also have "\<dots> = t0 + int i * 1000000"
      unfolding times using that by simp
    finally show ?thesis .
  qed
  define B where "B = take 58 (drop 1 xs)"
  define F where "F = drop 61 xs"
  have split: "xs = xs ! 0 # B @ xs ! 59 # xs ! 60 # F"
  proof -
    have "xs = take 1 xs @ drop 1 xs" by simp
    also have "take 1 xs = [xs ! 0]"
      using len by (simp add: take_Suc_conv_app_nth)
    also have "drop 1 xs = B @ drop 59 xs"
      unfolding B_def by (metis add.commute append_take_drop_id drop_drop numeral_plus_one
          semiring_norm(5) semiring_norm(8))
    also have "drop 59 xs = xs ! 59 # drop 60 xs"
      using len Cons_nth_drop_Suc[of 59 xs] by simp
    also have "drop 60 xs = xs ! 60 # F"
      unfolding F_def using len Cons_nth_drop_Suc[of 60 xs] by simp
    finally show ?thesis by simp
  qed
  have inB: "\<exists>i. 1 \<le> i \<and> i \<le> 58 \<and> x = xs ! i" if "x \<in> set B" for x
  proof -
    from that obtain j where "j < length B" "x = B ! j"
      by (auto simp: in_set_conv_nth)
    then have "j < 58" "x = xs ! (Suc j)"
      using len by (auto simp: B_def)
    then show ?thesis by (intro exI[of _ "Suc j"]) auto
  qed
  have inF: "\<exists>i. 61 \<le> i \<and> i < 119 \<and> x = xs ! i" if "x \<in> set F" for x
  proof -
    from that obtain j where "j < length F" "x = F ! j"
      by (auto simp: in_set_conv_nth)
    then have "j < 58" "x = xs ! (61 + j)"
      using len by (auto simp: F_def)
    then show ?thesis by (intro exI[of _ "61 + j"]) auto
  qed
  have lenB: "length B = 58" and lenF: "length F = 58"
    using len by (simp_all add: B_def F_def)
  let ?m1 = "snd (process_sensor_data (xs ! 0) m)"
  let ?m2 = "snd (feed B ?m1)"
  let ?m3 = "snd (process_sensor_data (xs ! 59) ?m2)"
  let ?m4 = "snd (process_sensor_data (xs ! 60) ?m3)"
  have "sd_speed_kmh (xs ! 0) \<ge> speed_threshold_kmh (config m)"
    using sp[of 0] cfg by simp
  note a = idle_start_step[OF idle this]
  have ta: "sd_timestamp (xs ! 0) = t0" using ts[of 0] by simp
  have "\<forall>x \<in> set B. sd_speed_kmh x \<ge> speed_threshold_kmh (config ?m1) \<and>
       total_seconds (sd_timestamp x - t0)
         < real_of_int (duration_threshold_seconds (config ?m1))"
  proof
    fix x assume "x \<in> set B"
    then obtain i where i: "1 \<le> i" "i \<le> 58" "x = xs ! i" using inB by blast
    then show "sd_speed_kmh x \<ge> speed_threshold_kmh (config ?m1) \<and>
       total_seconds (sd_timestamp x - t0)
         < real_of_int (duration_threshold_seconds (config ?m1))"
      using sp[of i] ts[of i] cfg a(3) by (simp add: total_seconds_def)
  qed
  note b = idle_wait[OF a(4) a(5)[unfolded ta] this]
  have b3: "config ?m2 = config m" and b4: "current_state (ctx ?m2) = IDLE"
    using b a(3) by simp_all
  have "sd_speed_kmh (xs ! 59) < speed_threshold_kmh (config ?m2)"
    using sp[of 59] cfg b3 by simp
  note c = idle_reset_step[OF b4 this]
  have "sd_speed_kmh (xs ! 60) \<ge> speed_threshold_kmh (config ?m3)"
    using sp[of 60] cfg b3 c(3) by simp
  note d = idle_start_step[OF c(4) c(5) this]
  have td: "sd_timestamp (xs ! 60) = t0 + 60000000" using ts[of 60] by simp
  have "\<forall>x \<in> set F. sd_speed_kmh x \<ge> speed_threshold_kmh (config ?m4) \<and>
       total_seconds (sd_timestamp x - (t0 + 60000000))
         < real_of_int (duration_threshold_seconds (config ?m4))"
  proof
    fix x assume "x \<in> set F"
    then obtain i where i: "61 \<le> i" "i < 119" "x = xs ! i" using inF by blast
    then show "sd_speed_kmh x \<ge> speed_threshold_kmh (config ?m4) \<and>
       total_seconds (sd_timestamp x - (t0 + 60000000))
         < real_of_int (duration_threshold_seconds (config ?m4))"
      using sp[of i] ts[of i] cfg b3 c(3) d(3) by (simp add: total_seconds_def)
  qed
  note e = idle_wait[OF d(4) d(5)[unfolded td] this]
  have feed_all: "fst (feed xs m) =
      fst (process_sensor_data (xs ! 0) m) # fst (feed B ?m1) @
      fst (process_sensor_data (xs ! 59) ?m2) # fst (process_sensor_data (xs ! 60) ?m3) #
      fst (feed F ?m4)"
    by (subst split) (simp add: feed_Cons feed_append del: feed.simps(2))
  have t60: "take 60 xs = xs ! 0 # B @ [xs ! 59]"
    by (subst split) (simp add: lenB)
  have "speed_above_threshold_start (ctx (snd (feed (take 60 xs) m))) = None"
    unfolding t60 using c(5) by (simp add: feed_Cons feed_append del: feed.simps(2))
  moreover have "map res_state_changed (fst (feed xs m)) = replicate 119 False"
    unfolding feed_all using a(1) b c(1) d(1) e
    by (simp add: lenB lenF replicate_append_same flip: replicate_add replicate_Suc)
  moreover have "map res_current_state (fst (feed xs m)) = replicate 119 IDLE"
    unfolding feed_all using a(2) b c(2) d(2) e
    by (simp add: lenB lenF replicate_append_same flip: replicate_add replicate_Suc)
  ultimately show ?thesis by simp
qed

theorem single_dip_restarts_debounce_witness:
  "map res_state_changed
     (fst (feed (map (\<lambda>k. sample 5 (int k * 1000000)) [0..<59] @
                 [sample 1 59000000] @
                 map (\<lambda>k. sample 5 (int k * 1000000)) [60..<119])
        (new_TripStateMachine default_TripConfig (\<lambda>n. 0))))
     = replicate 119 False"
proof -
  let ?xs = "map (\<lambda>k. sample 5 (int k * 1000000)) [0..<59] @ [sample 1 59000000] @
             map (\<lambda>k. sample 5 (int k * 1000000)) [60..<119]"
  let ?m = "new_TripStateMachine default_TripConfig (\<lambda>n. 0)"
  have u: "[0..<119] = [0..<59] @ [59] @ [60..<119]"
    using upt_add_eq_append[of 0 59 60] upt_conv_Cons[of 59 119] by simp
  have speeds: "map sd_speed_kmh ?xs = replicate 59 5 @ [1] @ replicate 59 5"
    by (simp add: sample_def comp_def eval_nat_numeral)
  have times: "map sd_timestamp ?xs = map (\<lambda>k. 0 + int k * 1000000) [0..<119]"
    unfolding u by (simp add: sample_def comp_def)
  have cfg: "speed_threshold_kmh (config ?m) = 3" "duration_threshold_seconds (config ?m) = 60"
    by (simp_all add: new_TripStateMachine_def default_TripConfig_def)
  have idle: "current_state (ctx ?m) = IDLE" "speed_above_threshold_start (ctx ?m) = None"
    by (simp_all add: new_TripStateMachine_def initial_TripContext_def)
  from single_dip_restarts_debounce[OF cfg idle speeds times] show ?thesis by simp
qed

lemma inv_transition_to_active: "trip_id_iff_active (transition_to_active tid m)"
  by (simp add: trip_id_iff_active_def transition_to_active_def datetime_now_def Let_def)

lemma inv_transition_to_idle: "trip_id_iff_active (transition_to_idle m)"
  by (simp add: trip_id_iff_active_def transition_to_idle_def datetime_now_def Let_def
      split: option.splits)

lemma inv_process_sensor_data:
  "trip_id_iff_active m \<Longrightarrow> trip_id_iff_active (snd (process_sensor_data s m))"
  by (auto simp: trip_id_iff_active_def sm_defs split: option.splits TripState.splits)

lemma inv_manual_start_trip:
  "trip_id_iff_active m \<Longrightarrow> trip_id_iff_active (snd (manual_start_trip u m))"
  by (auto simp: trip_id_iff_active_def manual_start_trip_def sm_defs split: option.splits)

lemma inv_manual_stop_trip:
  "trip_id_iff_active m \<Longrightarrow> trip_id_iff_active (snd (manual_stop_trip m))"
  by (auto simp: trip_id_iff_active_def manual_stop_trip_def sm_defs split: option.splits)

lemma inv_run_operations:
  "trip_id_iff_active m \<Longrightarrow> trip_id_iff_active (run_operations ops m)"
proof (induction ops arbitrary: m)
  case Nil
  then show ?case by simp
next
  case (Cons x xs)
  have "trip_id_iff_active (apply_operation x m)"
    using Cons.prems
    by (cases x) (simp_all add: inv_process_sensor_data inv_manual_start_trip inv_manual_stop_trip)
  then show ?case using Cons.IH by simp
qed

text \<open>
  From a machine whose context is the initial Idle context, after any finite sequence
  of \<open>process_sensor_data\<close>, \<open>manual_start_trip\<close> and \<open>manual_stop_trip\<close> calls the trip
  id is set if and only if the state is Active (\<open>ops\<close> is any sequence, so this holds
  after each operation). A transition to Active installs the id it is given and a
  transition to Idle clears it; a manual start from Idle installs the id generated from
  the user id and the clock reading of that call.
\<close>

lemma trip_id_set_iff_active:
  assumes "ctx m = initial_TripContext"
  shows "trip_id_iff_active (run_operations ops m) \<and>
    trip_id (ctx (transition_to_active tid m')) = Some tid \<and>
    current_state (ctx (transition_to_active tid m')) = ACTIVE \<and>
    trip_id (ctx (transition_to_idle m')) = None \<and>
    current_state (ctx (transition_to_idle m')) = IDLE \<and>
    (current_state (ctx m') = IDLE \<longrightarrow>
       trip_id (ctx (snd (manual_start_trip u m')))
         = Some (TripId u (clock m' (clock_reads m') div 1000)))"
proof -
  have "trip_id_iff_active m"
    using assms by (simp add: trip_id_iff_active_def initial_TripContext_def)
  then have "trip_id_iff_active (run_operations ops m)"
    by (rule inv_run_operations)
  then show ?thesis
    by (simp add: manual_start_trip_def sm_defs split: option.splits)
qed

text \<open>
  Claim C3. The id that a transition to Active installs is not always fresh: it is the
  prefix with the clock reading cut to milliseconds, and the prefix of every automatic
  start is \<open>auto\<close>. With clock readings one microsecond apart, a manual start, a manual
  stop and a second manual start of one user give the second trip the id of the first;
  the machines of two users that start automatically within the same millisecond give
  both trips the same id, and the recorder refuses to open the second of them.
\<close>

theorem trip_id_reused_within_millisecond:
  "fst (manual_start_trip ''u1''
          (new_TripStateMachine default_TripConfig (\<lambda>n. 1700000000000000 + int n)))
     = Some (TripId ''u1'' 1700000000000) \<and>
   fst (manual_start_trip ''u1''
          (snd (manual_stop_trip
             (snd (manual_start_trip ''u1''
                (new_TripStateMachine default_TripConfig
                   (\<lambda>n. 1700000000000000 + int n)))))))
     = Some (TripId ''u1'' 1700000000000) \<and>
   map res_trip_id
     (fst (feed [sample 5 0, sample 5 60000000]
        (new_TripStateMachine default_TripConfig (\<lambda>n. 1700000000000100 + int n))))
     = [None, Some (TripId ''auto'' 1700000000000)] \<and>
   map res_trip_id
     (fst (feed [sample 5 0, sample 5 60000000]
        (new_TripStateMachine default_TripConfig (\<lambda>n. 1700000000000500 + int n))))
     = [None, Some (TripId ''auto'' 1700000000000)] \<and>
   fst (start_recording 1700000000000600 (TripId ''auto'' 1700000000000) (Some ''userB'')
          (snd (start_recording 1700000000000200 (TripId ''auto'' 1700000000000)
                  (Some ''userA'') (new_RouteRecorder default_RecorderConfig))))
     = False"
  by (simp add: manual_start_trip_def manual_stop_trip_def new_TripStateMachine_def
      default_TripConfig_def initial_TripContext_def sample_def total_seconds_def
      start_recording_def new_RouteRecorder_def sm_defs)

text \<open>
  Claim C8. \<open>manual_start_trip\<close> on a machine whose state is Active returns the trip id
  of the context and the machine unchanged: state, trip id, state-entry time, both
  debounce timers, the list of callback calls made and the clock readings taken are
  what they were.
\<close>

theorem manual_start_when_active_is_noop:
  assumes "current_state (ctx m) = ACTIVE"
  shows "manual_start_trip user_id m = (trip_id (ctx m), m)"
  using assms by (simp add: manual_start_trip_def)

theorem manual_start_when_active_is_noop_witness:
  "manual_start_trip ''u1''
     (snd (manual_start_trip ''u1''
        (set_route_recorder_callbacks (new_TripStateMachine default_TripConfig (\<lambda>n. 0)))))
   = (Some (TripId ''u1'' 0),
      snd (manual_start_trip ''u1''
        (set_route_recorder_callbacks (new_TripStateMachine default_TripConfig (\<lambda>n. 0)))))"
  using manual_start_when_active_is_noop
    [of "snd (manual_start_trip ''u1''
        (set_route_recorder_callbacks (new_TripStateMachine default_TripConfig (\<lambda>n. 0))))"
        "''u1''"]
  by (simp add: manual_start_trip_def new_TripStateMachine_def initial_TripContext_def
      set_route_recorder_callbacks_def sm_defs)

section \<open>Properties of the sensor processor\<close>

text \<open>
  Claim C5. \<open>process_activity\<close> upper-cases the label before the lookup, and the iOS
  Core Motion labels are keys of the table in lower case only: \<open>automotive\<close>,
  \<open>cycling\<close> and \<open>stationary\<close> are classified as unknown, not as in_vehicle,
  on_bicycle and still. A label that has an upper-case key (\<open>in_vehicle\<close>) is found,
  and an unlabeled sample yields unknown with confidence 0.5.
\<close>

theorem ios_labels_fall_to_unknown:
  "process_activity (Some ''automotive'') None = (UNKNOWN, 1/2) \<and>
   process_activity (Some ''cycling'') None = (UNKNOWN, 1/2) \<and>
   process_activity (Some ''stationary'') None = (UNKNOWN, 1/2) \<and>
   process_activity (Some ''in_vehicle'') None = (IN_VEHICLE, 1/2) \<and>
   process_activity None None = (UNKNOWN, 1/2)"
  by (simp add: process_activity_def upper_def upper_char_def activity_mapping_def
      float_or_def Let_def)

lemma float_overflows_small: "\<bar>y\<bar> < 128 \<Longrightarrow> \<not> float_overflows y"
proof -
  assume y: "\<bar>y\<bar> < 128"
  have "(2::real) ^ 7 \<le> 2 ^ 970" by (rule power_increasing) simp_all
  moreover have "(2::real) ^ 970 * 2 \<le> 2 ^ 1024"
  proof -
    have "(2::real) ^ 970 * 2 = 2 ^ 971" by simp
    also have "\<dots> \<le> 2 ^ 1024" by (rule power_increasing) simp_all
    finally show ?thesis .
  qed
  moreover have "(2::real) ^ 7 = 128" by simp
  ultimately show ?thesis
    unfolding float_overflows_def using y by linarith
qed

lemma float_overflows_huge: "float_overflows (huge_reading\<^sup>2)"
proof -
  have "(2::real) ^ 1024 \<le> 2 ^ 1100"
    by (rule power_increasing) simp_all
  also have "(2::real) ^ 1100 = (2 ^ 11) ^ 100"
    by (simp only: power_mult [symmetric]) simp
  also have "\<dots> \<le> ((10::real) ^ 4) ^ 100"
    by (rule power_mono) simp_all
  also have "\<dots> = (10 ^ 200)\<^sup>2"
    by (simp only: power_mult [symmetric]) simp
  finally have "(2::real) ^ 1024 \<le> (10 ^ 200)\<^sup>2" .
  moreover have "(0::real) \<le> 2 ^ 970" by (rule zero_le_power) simp
  moreover have "\<bar>((10::real) ^ 200)\<^sup>2\<bar> = (10 ^ 200)\<^sup>2"
    by (rule abs_of_nonneg) (rule zero_le_power2)
  ultimately show ?thesis
    unfolding float_overflows_def huge_reading_def by linarith
qed

text \<open>
  Claim C10, amended. For a raw sample that passes validation and has no speed reading,
  \<open>process_sensor_data\<close> appends 0 to the user's speed window and stores it (\<open>w\<close> is the
  window after the append: it is not empty and its last element is 0). It returns
  \<open>None\<close> exactly when the motion step raises; otherwise the smoothed speed of the
  result is the arithmetic mean of that window.
\<close>

theorem missing_speed_counts_as_zero:
  assumes valid: "fst (validate_gps_data raw)"
    and nospeed: "raw_speed_mps raw = None"
    and w: "w = deque_append speed_smoothing_window
                  (case speed_windows p (raw_user_id raw) of None \<Rightarrow> [] | Some old \<Rightarrow> old) 0"
  shows "speed_windows (snd (SensorDataProcessor_process_sensor_data raw p)) (raw_user_id raw)
           = Some w \<and>
         w \<noteq> [] \<and> last w = 0 \<and>
         (fst (SensorDataProcessor_process_sensor_data raw p) = None) = motion_step_raises raw \<and>
         (fst (SensorDataProcessor_process_sensor_data raw p) = None \<or>
          map_option psd_speed_kmh (fst (SensorDataProcessor_process_sensor_data raw p))
            = Some (sum_list w / real (length w)))"
proof -
  have ne: "w \<noteq> []" and l: "last w = 0"
    unfolding w by (simp_all add: deque_append_def speed_smoothing_window_def)
  have ps: "process_speed raw p =
      (sum_list w / real (length w), p\<lparr>speed_windows := (speed_windows p)(raw_user_id raw \<mapsto> w)\<rparr>)"
    using ne nospeed unfolding w by (simp add: process_speed_def float_or_def Let_def)
  show ?thesis
    using valid ne l
    by (auto simp: SensorDataProcessor_process_sensor_data_def ps process_motion_data_def
        add_motion_data_def motion_step_raises_def Let_def
        split: prod.splits option.splits if_splits)
qed

theorem missing_speed_counts_as_zero_witness:
  "map_option psd_speed_kmh
     (fst (SensorDataProcessor_process_sensor_data
        (with_accelerometer 0 0 9.8 (raw_sample ''u1'' None None))
        (new_SensorDataProcessor\<lparr>speed_windows := [''u1'' \<mapsto> [18, 18]]\<rparr>)))
     = Some 12 \<and>
   speed_windows
     (snd (SensorDataProcessor_process_sensor_data
        (with_accelerometer 0 0 9.8 (raw_sample ''u1'' None None))
        (new_SensorDataProcessor\<lparr>speed_windows := [''u1'' \<mapsto> [18, 18]]\<rparr>))) ''u1''
     = Some [18, 18, 0]"
proof -
  let ?raw = "with_accelerometer 0 0 9.8 (raw_sample ''u1'' None None)"
  let ?p = "new_SensorDataProcessor\<lparr>speed_windows := [''u1'' \<mapsto> [18, 18]]\<rparr>"
  have v: "fst (validate_gps_data ?raw)"
    by (simp add: validate_gps_data_def with_accelerometer_def raw_sample_def)
  have n: "raw_speed_mps ?raw = None"
    by (simp add: with_accelerometer_def raw_sample_def)
  have w: "[18, 18, 0] = deque_append speed_smoothing_window
      (case speed_windows ?p (raw_user_id ?raw) of None \<Rightarrow> [] | Some old \<Rightarrow> old) (0::real)"
    by (simp add: with_accelerometer_def raw_sample_def deque_append_def
        speed_smoothing_window_def)
  have r: "\<not> motion_step_raises ?raw"
    by (simp add: motion_step_raises_def with_accelerometer_def raw_sample_def
        float_overflows_small power2_eq_square)
  have u: "raw_user_id ?raw = ''u1''"
    by (simp add: with_accelerometer_def raw_sample_def)
  from missing_speed_counts_as_zero[OF v n w] r u show ?thesis by auto
qed

text \<open>
  The claim as stated does not hold for every such sample: a valid sample without speed
  whose accelerometer reading is \<open>10^200\<close> (\<open>huge_reading\<close>) makes the motion step raise, and nothing is
  returned, although 0 has been appended to the window.
\<close>

theorem missing_speed_sample_returns_none:
  "fst (validate_gps_data (with_accelerometer huge_reading 0 0 (raw_sample ''u1'' None None))) \<and>
   raw_speed_mps (with_accelerometer huge_reading 0 0 (raw_sample ''u1'' None None)) = None \<and>
   fst (SensorDataProcessor_process_sensor_data
          (with_accelerometer huge_reading 0 0 (raw_sample ''u1'' None None))
          new_SensorDataProcessor) = None \<and>
   speed_windows
     (snd (SensorDataProcessor_process_sensor_data
             (with_accelerometer huge_reading 0 0 (raw_sample ''u1'' None None))
             new_SensorDataProcessor)) ''u1'' = Some [0]"
proof -
  note o = float_overflows_huge
  show ?thesis
    by (simp add: SensorDataProcessor_process_sensor_data_def validate_gps_data_def
        with_accelerometer_def raw_sample_def process_speed_def float_or_def
        process_motion_data_def add_motion_data_def o new_SensorDataProcessor_def
        deque_append_def speed_smoothing_window_def process_activity_def
        determine_movement_state_def Let_def split: prod.splits)
qed

section \<open>Properties of the route recorder\<close>










lemma distance_loop_sum:
  "distance_loop geo ps acc =
     acc + sum_list (filter (\<lambda>d. d < 1000) (segment_lengths geo ps))"
  by (induction geo ps acc rule: distance_loop.induct)
     (simp_all add: Let_def calculate_distance_between_points_def)

lemma calculate_distance_sum:
  "calculate_distance geo ps =
     sum_list (filter (\<lambda>d. d < 1000) (segment_lengths geo ps)) / 1000"
proof (cases "length ps < 2")
  case True
  then have "segment_lengths geo ps = []"
    by (cases "(geo, ps)" rule: segment_lengths.cases) auto
  with True show ?thesis by (simp add: calculate_distance_def)
next
  case False
  then show ?thesis by (simp add: calculate_distance_def distance_loop_sum)
qed

lemma stop_recording_total:
  assumes "active_trips r tid = Some tr" "db \<noteq> Raised" "tr_total_distance_km tr = None"
  shows "map_option (map_option td_total_distance_km) (fst (stop_recording geo now db tid r))
           = Some (Some (calculate_distance geo (tr_gps_points tr)))"
    and "map_option (map_option td_gps_points_count) (fst (stop_recording geo now db tid r))
           = Some (Some (length (tr_gps_points tr)))"
  using assms
  by (simp_all add: stop_recording_def post_process_trip_def save_trip_to_database_def
      float_or_def Let_def calculate_distance_def)


lemma sin_coeff_values:
  "sin_coeff 0 = 0" "sin_coeff 1 = 1" "sin_coeff 2 = 0" "sin_coeff 3 = - 1 / 6"
  "sin_coeff 4 = 0" "sin_coeff 5 = 1 / 120" "sin_coeff 6 = 0" "sin_coeff (Suc 0) = 1"
  by (simp_all add: sin_coeff_def fact_numeral)

lemma sin_series_7:
  fixes x :: real
  shows "(\<Sum>m<7. sin_coeff m * x ^ m) = x - x^3 / 6 + x^5 / 120"
proof -
  have s: "{..<7::nat} = {0, 1, 2, 3, 4, 5, 6}" by auto
  show ?thesis unfolding s by (simp add: sin_coeff_values)
qed

lemma sin_lower_bound:
  fixes x :: real
  shows "x - x^3 / 6 + x^5 / 120 - \<bar>x\<bar>^7 / 5040 \<le> sin x"
proof -
  have "fact 7 = (5040::real)" by (simp add: fact_numeral)
  then have "inverse (fact 7) * \<bar>x\<bar> ^ 7 = \<bar>x\<bar>^7 / 5040" by simp
  then have "\<bar>sin x - (x - x^3 / 6 + x^5 / 120)\<bar> \<le> \<bar>x\<bar>^7 / 5040"
    using Maclaurin_sin_bound[of x 7] by (simp only: sin_series_7)
  then show ?thesis by linarith
qed

lemma pi_less_31422: "pi < 3.1422"
proof (rule ccontr)
  assume "\<not> pi < 3.1422"
  then have "(0.5237::real) \<le> pi / 6" by simp
  moreover have "pi / 6 \<le> pi / 2" by simp
  moreover have "- (pi / 2) \<le> (0.5237::real)" using pi_ge_two by simp
  ultimately have "sin (0.5237::real) \<le> sin (pi / 6)"
    by (intro sin_monotone_2pi_le) auto
  then have "sin (0.5237::real) \<le> 1/2" by (simp add: sin_30)
  moreover have "(1/2::real) < 0.5237 - 0.5237^3 / 6 + 0.5237^5 / 120 - \<bar>0.5237\<bar>^7 / 5040"
    by (simp add: power_divide)
  ultimately show False
    using sin_lower_bound[of "0.5237"] by linarith
qed

lemma great_circle_on_equator:
  assumes "0 \<le> l" "l \<le> 180"
  shows "spec_great_circle_m (0, 0) (0, l) = 6371000 * (l * pi / 180)"
proof -
  let ?x = "l * pi / 180"
  have x0: "0 \<le> ?x / 2" using assms by simp
  have "?x \<le> pi" using assms by (simp add: field_simps)
  then have x1: "?x / 2 \<le> pi / 2" by simp
  have "0 \<le> sin (?x / 2)"
    using x0 x1 by (intro sin_ge_zero) (auto intro: order_trans[OF x1])
  then have s: "sqrt ((sin (?x / 2))\<^sup>2) = sin (?x / 2)" by simp
  have a: "arcsin (sin (?x / 2)) = ?x / 2"
    using x0 x1 by (intro arcsin_sin) linarith+
  have e: "spec_great_circle_m (0, 0) (0, l)
      = 2 * arcsin (sqrt ((sin (?x / 2))\<^sup>2)) * 6371 * 1000"
    by (simp add: spec_great_circle_m_def radians_def Let_def)
  show ?thesis unfolding e s a by simp
qed

text \<open>
  The claim as stated, with great-circle distances, does not hold: the recorder measures
  with the geodesic of the WGS-84 ellipsoid. Two points of the equator 0.00899 degrees
  apart are 999.64 m apart on the great circle of the specification, below 1 km, and
  1000.76 m apart by the geodesic: the segment is excluded, and the total is 0, not the
  great-circle sum.
\<close>

theorem great_circle_short_segment_is_dropped:
  "calculate_distance_between_points spec_great_circle_m (point_at 0) (point_at 0.00899)
     < 1000 \<and>
   0 < calculate_distance_between_points spec_great_circle_m (point_at 0) (point_at 0.00899) \<and>
   map_option (map_option td_total_distance_km)
     (fst (stop_recording equator_geodesic 600000000 Saved (TripId ''u1'' 0)
        (recorder_with [point_at 0, point_at 0.00899])))
     = Some (Some 0)"
proof -
  have gc: "calculate_distance_between_points spec_great_circle_m (point_at 0) (point_at 0.00899)
      = 6371000 * (0.00899 * pi / 180)"
    using great_circle_on_equator[of "0.00899"]
    by (simp add: calculate_distance_between_points_def point_at_def)
  have a: "6371000 * (0.00899 * pi / 180) < 1000"
    using pi_less_31422 by simp
  have b: "0 < 6371000 * (0.00899 * pi / 180)"
    by simp
  have c: "map_option (map_option td_total_distance_km)
     (fst (stop_recording equator_geodesic 600000000 Saved (TripId ''u1'' 0)
        (recorder_with [point_at 0, point_at 0.00899])))
     = Some (Some 0)"
    by (simp add: stop_recording_def recorder_with_def open_trip_def post_process_trip_def
        save_trip_to_database_def calculate_distance_def equator_geodesic_def point_at_def
        float_or_def Let_def)
  show ?thesis unfolding gc using a b c by simp
qed

text \<open>
  Claim C6, amended. Distances are those of the function the recorder calls (the
  parameter \<open>geo\<close>: geopy's geodesic of the WGS-84 ellipsoid, not the great-circle
  formula). An open trip whose consecutive-pair distances are all below 1000 m is
  stopped (the persistence collaborator not raising): the \<open>total_distance_km\<close> of the
  returned trip data is the sum of all its consecutive-pair distances, in kilometres.
  A trip whose consecutive-pair distances are the same with one distance of 2000 m
  inserted at any position \<open>k\<close> is given the same \<open>total_distance_km\<close>, and all its
  points are counted in the trip data.
\<close>

theorem total_distance_skips_long_segment:
  assumes open1: "active_trips r tid = Some tr" and db1: "db \<noteq> Raised"
    and new1: "tr_total_distance_km tr = None"
    and open2: "active_trips r2 tid2 = Some tr2" and db2: "db2 \<noteq> Raised"
    and new2: "tr_total_distance_km tr2 = None"
    and short: "\<forall>d \<in> set (segment_lengths geo (tr_gps_points tr)). d < 1000"
    and jump: "segment_lengths geo (tr_gps_points tr2) =
                 take k (segment_lengths geo (tr_gps_points tr)) @ [2000] @
                 drop k (segment_lengths geo (tr_gps_points tr))"
  shows "map_option (map_option td_total_distance_km) (fst (stop_recording geo now db tid r))
           = Some (Some (sum_list (segment_lengths geo (tr_gps_points tr)) / 1000)) \<and>
         map_option (map_option td_total_distance_km) (fst (stop_recording geo now2 db2 tid2 r2))
           = Some (Some (sum_list (segment_lengths geo (tr_gps_points tr)) / 1000)) \<and>
         map_option (map_option td_gps_points_count) (fst (stop_recording geo now2 db2 tid2 r2))
           = Some (Some (length (tr_gps_points tr2)))"
proof -
  let ?s = "segment_lengths geo (tr_gps_points tr)"
  have f1: "filter (\<lambda>d. d < 1000) ?s = ?s"
    using short by (simp add: filter_id_conv)
  have "filter (\<lambda>d. d < 1000) (take k ?s @ [2000] @ drop k ?s)
          = filter (\<lambda>d. d < 1000) (take k ?s) @ filter (\<lambda>d. d < 1000) (drop k ?s)"
    by simp
  also have "\<dots> = filter (\<lambda>d. d < 1000) (take k ?s @ drop k ?s)"
    by (simp only: filter_append)
  also have "\<dots> = filter (\<lambda>d. d < 1000) ?s"
    by (simp only: append_take_drop_id)
  finally have f2: "filter (\<lambda>d. d < 1000) (segment_lengths geo (tr_gps_points tr2)) = ?s"
    using f1 jump by simp
  show ?thesis
    using stop_recording_total[OF open1 db1 new1, of geo now]
      stop_recording_total[OF open2 db2 new2, of geo now2]
    by (simp add: calculate_distance_sum f1 f2)
qed


theorem total_distance_skips_long_segment_witness:
  "map_option (map_option td_total_distance_km)
     (fst (stop_recording equator_geodesic 600000000 Saved (TripId ''u1'' 0)
        (recorder_with [point_at 0, point_at 0.001, point_at 0.002])))
     = Some (Some 0.22263898) \<and>
   map_option (map_option td_total_distance_km)
     (fst (stop_recording equator_geodesic 600000000 Saved (TripId ''u1'' 0)
        (recorder_with [point_at 0, point_at 0.001, point_at (0.001 + 200000 / 11131949),
                        point_at (0.002 + 200000 / 11131949)])))
     = Some (Some 0.22263898)"
proof -
  let ?ps = "[point_at 0, point_at 0.001, point_at 0.002]"
  let ?qs = "[point_at 0, point_at 0.001, point_at (0.001 + 200000 / 11131949),
              point_at (0.002 + 200000 / 11131949)]"
  have s1: "segment_lengths equator_geodesic ?ps = [111.31949, 111.31949]"
    by (simp add: calculate_distance_between_points_def equator_geodesic_def point_at_def)
  have s2: "segment_lengths equator_geodesic ?qs = [111.31949, 2000, 111.31949]"
    by (simp add: calculate_distance_between_points_def equator_geodesic_def point_at_def)
  have o1: "active_trips (recorder_with ?ps) (TripId ''u1'' 0) = Some (open_trip ?ps)"
    and o2: "active_trips (recorder_with ?qs) (TripId ''u1'' 0) = Some (open_trip ?qs)"
    by (simp_all add: recorder_with_def)
  have n1: "tr_total_distance_km (open_trip ?ps) = None"
    and n2: "tr_total_distance_km (open_trip ?qs) = None"
    by (simp_all add: open_trip_def)
  have b1: "tr_gps_points (open_trip ?ps) = ?ps" and b2: "tr_gps_points (open_trip ?qs) = ?qs"
    by (simp_all add: open_trip_def)
  have short: "\<forall>d \<in> set (segment_lengths equator_geodesic (tr_gps_points (open_trip ?ps))).
      d < 1000"
    unfolding b1 s1 by simp
  have jump: "segment_lengths equator_geodesic (tr_gps_points (open_trip ?qs)) =
      take 1 (segment_lengths equator_geodesic (tr_gps_points (open_trip ?ps))) @ [2000] @
      drop 1 (segment_lengths equator_geodesic (tr_gps_points (open_trip ?ps)))"
    unfolding b1 b2 s1 s2 by simp
  have db: "Saved \<noteq> Raised" by simp
  from total_distance_skips_long_segment[OF o1 db n1 o2 db n2 short jump,
      of 600000000 600000000]
  show ?thesis unfolding b1 s1 by simp
qed

section \<open>Properties of the feature extraction and mode classifier\<close>

lemmas clf_defs = calculate_mode_score_def speed_thresholds_def acceleration_thresholds_def
  stop_frequency_thresholds_def score_in_range_def Let_def

lemma walking_score:
  assumes "avg_speed_kmh f = 5" "avg_acceleration f = 1" "stop_frequency f = 8/60"
  shows "calculate_mode_score f ''walking'' = Some (76/125)"
  using assms by (simp add: clf_defs)

lemma cycling_score:
  assumes "avg_speed_kmh f = 5" "avg_acceleration f = 1" "stop_frequency f = 8/60"
  shows "calculate_mode_score f ''cycling'' = Some (79/250)"
  using assms by (simp add: clf_defs)

lemma car_score:
  assumes "avg_speed_kmh f = 5" "avg_acceleration f = 1" "stop_frequency f = 8/60"
  shows "calculate_mode_score f ''car'' = Some (3/25)"
  using assms by (simp add: clf_defs)

lemma bus_score:
  assumes "avg_speed_kmh f = 5" "avg_acceleration f = 1" "stop_frequency f = 8/60"
  shows "calculate_mode_score f ''bus'' = Some (3/20)"
  using assms by (simp add: clf_defs)

lemma train_score:
  assumes "avg_speed_kmh f = 5" "avg_acceleration f = 1" "stop_frequency f = 8/60"
  shows "calculate_mode_score f ''train'' = Some (1/5)"
  using assms by (simp add: clf_defs)

lemma score_in_range_inside:
  assumes "lo \<le> v" "v \<le> hi" "lo < hi"
  shows "score_in_range v (lo, hi) = 1 - \<bar>v - (lo + hi) / 2\<bar> / ((hi - lo) / 2)"
proof -
  have "\<bar>v - (lo + hi) / 2\<bar> \<le> (hi - lo) / 2"
    using assms by (simp add: abs_le_iff field_simps)
  then have "\<bar>v - (lo + hi) / 2\<bar> / ((hi - lo) / 2) \<le> 1"
    using assms by (simp add: field_simps)
  then show ?thesis
    using assms by (simp add: score_in_range_def Let_def)
qed

lemma score_in_range_below:
  assumes "v < lo" "lo \<noteq> 0"
  shows "score_in_range v (lo, hi) = max 0 (1 - (lo - v) / (0.5 * lo))"
  using assms by (simp add: score_in_range_def Let_def mult.commute)

lemma score_in_range_above:
  assumes "lo \<le> v" "hi < v" "hi \<noteq> 0"
  shows "score_in_range v (lo, hi) = max 0 (1 - (v - hi) / (0.5 * hi))"
  using assms by (simp add: score_in_range_def Let_def mult.commute)

text \<open>
  Claim C7. For a feature vector with mean speed 5, mean acceleration 1 and stop
  frequency 8/60, the score of walking is 0.608 and the score of train is 0.2, which is
  strictly less, and the classifier selects walking with that score. The per-factor
  score is \<open>1 - |value - midpoint| / (range / 2)\<close> inside a range and
  \<open>1 - distance / (0.5 * nearest bound)\<close> floored at 0 outside it (for a nearest bound
  that is not zero); the factors are weighted 0.4, 0.3, 0.3 and divided by the sum of the
  weights.
\<close>

theorem walking_scores_above_train:
  assumes "avg_speed_kmh f = 5" "avg_acceleration f = 1" "stop_frequency f = 8/60"
  shows "calculate_mode_score f ''walking'' = Some (76/125) \<and>
         calculate_mode_score f ''train'' = Some (1/5) \<and>
         (1/5 :: real) < 76/125 \<and>
         classify_transport_mode f = (M_WALKING, 76/125) \<and>
         (lo1 \<le> v1 \<and> v1 \<le> hi1 \<and> lo1 < hi1 \<longrightarrow>
            score_in_range v1 (lo1, hi1) = 1 - \<bar>v1 - (lo1 + hi1) / 2\<bar> / ((hi1 - lo1) / 2)) \<and>
         (v2 < lo2 \<and> lo2 \<noteq> 0 \<longrightarrow>
            score_in_range v2 (lo2, hi2) = max 0 (1 - (lo2 - v2) / (0.5 * lo2))) \<and>
         (lo3 \<le> v3 \<and> hi3 < v3 \<and> hi3 \<noteq> 0 \<longrightarrow>
            score_in_range v3 (lo3, hi3) = max 0 (1 - (v3 - hi3) / (0.5 * hi3))) \<and>
         calculate_mode_score f ''walking'' =
           Some ((0 + score_in_range (avg_speed_kmh f) (0, 8) * 0.4
                    + score_in_range (avg_acceleration f) (0, 2) * 0.3
                    + score_in_range (stop_frequency f) (0, 10) * 0.3) / (0.4 + 0.3 + 0.3))"
proof -
  note s = walking_score[OF assms] cycling_score[OF assms] car_score[OF assms]
    bus_score[OF assms] train_score[OF assms]
  have "classify_transport_mode f = (M_WALKING, 76/125)"
    by (simp add: classify_transport_mode_def s TransportMode_of_value_def)
  moreover have "calculate_mode_score f ''walking'' =
           Some ((0 + score_in_range (avg_speed_kmh f) (0, 8) * 0.4
                    + score_in_range (avg_acceleration f) (0, 2) * 0.3
                    + score_in_range (stop_frequency f) (0, 10) * 0.3) / (0.4 + 0.3 + 0.3))"
    by (simp add: calculate_mode_score_def speed_thresholds_def acceleration_thresholds_def
        stop_frequency_thresholds_def)
  ultimately show ?thesis
    using s(1) s(5) score_in_range_inside[of lo1 v1 hi1] score_in_range_below[of v2 lo2 hi2]
      score_in_range_above[of lo3 v3 hi3]
    by simp
qed

theorem walking_scores_above_train_witness:
  "classify_transport_mode (features_with 5 1 (8/60)) = (M_WALKING, 76/125) \<and>
   calculate_mode_score (features_with 5 1 (8/60)) ''train'' = Some (1/5) \<and>
   score_in_range 5 (0, 8) = 3/4 \<and>
   score_in_range 5 (30, 200) = 0 \<and>
   score_in_range 12 (0, 10) = 3/5"
  using walking_scores_above_train
    [of "features_with 5 1 (8/60)" 0 5 8 5 30 200 0 12 10]
  by (simp add: features_with_def)



lemma present_values_empty:
  "list_all (\<lambda>f. f = Absent \<or> f = Null) fs \<Longrightarrow> present_values fs = []"
  by (induction fs rule: present_values.induct) auto

lemma sort_by_timestamp_set:
  "sort_by_timestamp ps = Some qs \<Longrightarrow> set qs = set ps"
  by (auto simp: sort_by_timestamp_def split: if_splits)

lemma movement_keys:
  "extract_movement_features ps = Some kw \<Longrightarrow>
   map fst kw = [''stop_frequency'', ''direction_changes'', ''distance_actual'',
                 ''distance_straight_line'']"
  by (auto simp: extract_movement_features_def Let_def split: Option.bind_splits)

lemma time_keys:
  "extract_time_features lt ps = Some kw \<Longrightarrow>
   map fst kw = [''duration_minutes'', ''time_of_day'', ''day_of_week'']"
  by (auto simp: extract_time_features_def Let_def split: Option.bind_splits if_splits)

lemma gps_keys:
  "map fst (extract_gps_features ps) =
     [''avg_accuracy'', ''gps_point_count'', ''activity_confidence'', ''activity_consistency'']"
  by (simp add: extract_gps_features_def Let_def)

lemma sensor_keys:
  "extract_sensor_features sd = Some kw \<Longrightarrow>
   set (map fst kw) \<subseteq> {''motion_variance'', ''activity_confidence''}"
  by (auto simp: extract_sensor_features_def split: Option.bind_splits if_splits)

lemma confidences_nonempty:
  "confidences_of sd = Some cs \<Longrightarrow> sd \<noteq> [] \<Longrightarrow> cs \<noteq> []"
  by (cases sd) (auto split: Option.bind_splits)

lemma sensor_has_confidence:
  "extract_sensor_features sd = Some kw \<Longrightarrow> sd \<noteq> [] \<Longrightarrow>
   ''activity_confidence'' \<in> set (map fst kw)"
  by (auto simp: extract_sensor_features_def dest: confidences_nonempty
      split: Option.bind_splits if_splits)

lemma new_MLFeatures_missing:
  "map_of kw ''avg_acceleration'' = None \<Longrightarrow> new_MLFeatures kw = None"
  by (simp add: new_MLFeatures_def split: Option.bind_split)

lemma new_MLFeatures_duplicate:
  "\<not> distinct (map fst kw) \<Longrightarrow> new_MLFeatures kw = None"
  by (simp add: new_MLFeatures_def)

lemma no_speeds_None:
  assumes "list_all (\<lambda>p. pd_speed_kmh p = Absent \<or> pd_speed_kmh p = Null) gps_points"
  shows "extract_features lt gps_points sensor_data = None"
proof (cases "extract_features lt gps_points sensor_data")
  case None
  then show ?thesis .
next
  case (Some feats)
  then obtain sorted_points mv tf sf where
    1: "sort_by_timestamp gps_points = Some sorted_points"
    and 2: "extract_movement_features sorted_points = Some mv"
    and 3: "extract_time_features lt sorted_points = Some tf"
    and 4: "(case sensor_data of None \<Rightarrow> Some []
             | Some sd \<Rightarrow> if sd = [] then Some [] else extract_sensor_features sd) = Some sf"
    and 5: "new_MLFeatures (extract_speed_features sorted_points @ mv @ tf @
              extract_gps_features sorted_points @ sf) = Some feats"
    by (auto simp: extract_features_def Let_def split: if_splits Option.bind_splits)
  have "list_all (\<lambda>f. f = Absent \<or> f = Null) (map pd_speed_kmh sorted_points)"
    using assms sort_by_timestamp_set[OF 1] by (simp add: list_all_iff)
  then have sp: "extract_speed_features sorted_points =
      [(''avg_speed_kmh'', PyFloat 0), (''max_speed_kmh'', PyFloat 0),
       (''speed_variance'', PyFloat 0), (''speed_percentile_95'', PyFloat 0)]"
    by (simp add: extract_speed_features_def present_values_empty)
  have sfk: "set (map fst sf) \<subseteq> {''motion_variance'', ''activity_confidence''}"
    using 4 sensor_keys by (auto split: option.splits if_splits)
  have "''avg_acceleration'' \<notin> fst ` set (extract_speed_features sorted_points @ mv @ tf @
              extract_gps_features sorted_points @ sf)"
  proof -
    have "''avg_acceleration'' \<notin> set (map fst sf)" using sfk by auto
    moreover have "''avg_acceleration'' \<notin> set (map fst mv)"
      unfolding movement_keys[OF 2] by simp
    moreover have "''avg_acceleration'' \<notin> set (map fst tf)"
      unfolding time_keys[OF 3] by simp
    moreover have "''avg_acceleration'' \<notin> set (map fst (extract_gps_features sorted_points))"
      unfolding gps_keys by simp
    moreover have "''avg_acceleration'' \<notin> set (map fst (extract_speed_features sorted_points))"
      unfolding sp by simp
    ultimately show ?thesis by (simp add: image_Un)
  qed
  then have "map_of (extract_speed_features sorted_points @ mv @ tf @
              extract_gps_features sorted_points @ sf) ''avg_acceleration'' = None"
    by (simp only: map_of_eq_None_iff simp_thms)
  from new_MLFeatures_missing[OF this] 5 show ?thesis by simp
qed

lemma with_sensor_data_None:
  assumes "sd \<noteq> []"
  shows "extract_features lt gps_points (Some sd) = None"
proof (cases "extract_features lt gps_points (Some sd)")
  case None
  then show ?thesis .
next
  case (Some feats)
  then obtain sorted_points mv tf sf where
    4: "extract_sensor_features sd = Some sf"
    and 5: "new_MLFeatures (extract_speed_features sorted_points @ mv @ tf @
              extract_gps_features sorted_points @ sf) = Some feats"
    using assms
    by (auto simp: extract_features_def Let_def split: if_splits Option.bind_splits)
  have "''activity_confidence'' \<in> set (map fst sf)"
    using sensor_has_confidence[OF 4 assms] .
  moreover have "''activity_confidence'' \<in> set (map fst (extract_gps_features sorted_points))"
    unfolding gps_keys by simp
  ultimately have "\<not> distinct (map fst (extract_speed_features sorted_points @ mv @ tf @
              extract_gps_features sorted_points @ sf))"
    by auto
  from new_MLFeatures_duplicate[OF this] 5 show ?thesis by simp
qed


lemma get_num_Some: "f \<noteq> Null \<Longrightarrow> \<exists>x. get_num f d = Some x"
  by (cases f) auto

lemma haversine_Some:
  "no_null p \<Longrightarrow> no_null q \<Longrightarrow> \<exists>x. haversine_distance p q = Some x"
  unfolding haversine_distance_def no_null_def
  by (cases "pd_latitude p"; cases "pd_longitude p"; cases "pd_latitude q";
      cases "pd_longitude q") (simp_all add: Let_def)

lemma bearing_Some:
  "no_null p \<Longrightarrow> no_null q \<Longrightarrow> \<exists>x. calculate_bearing p q = Some x"
  unfolding calculate_bearing_def no_null_def
  by (cases "pd_latitude p"; cases "pd_longitude p"; cases "pd_latitude q";
      cases "pd_longitude q") (simp_all add: Let_def)

lemma direction_changes_loop_Some:
  "list_all no_null ps \<Longrightarrow> \<exists>k. direction_changes_loop ps n = Some k"
proof (induction ps n rule: direction_changes_loop.induct)
  case (1 p0 p1 p2 rest n)
  from "1.prems" obtain b1 b2 where
    b: "calculate_bearing p0 p1 = Some b1" "calculate_bearing p1 p2 = Some b2"
    using bearing_Some[of p0 p1] bearing_Some[of p1 p2] by auto
  from "1.prems" have rest: "list_all no_null (p1 # p2 # rest)" by simp
  show ?case
    using "1.IH"[OF b(1) b(2) refl refl rest] b
    by (simp add: Let_def)
qed simp_all

lemma actual_distance_loop_Some:
  "list_all no_null ps \<Longrightarrow> \<exists>d. actual_distance_loop ps acc = Some d"
proof (induction ps acc rule: actual_distance_loop.induct)
  case (1 p0 p1 rest total_distance)
  from "1.prems" obtain d where d: "haversine_distance p0 p1 = Some d"
    using haversine_Some[of p0 p1] by auto
  from "1.prems" have "list_all no_null (p1 # rest)" by simp
  from "1.IH"[OF d this] d show ?case by simp
qed simp_all

lemma count_stops_Some:
  "list_all no_null ps \<Longrightarrow> \<exists>k. count_stops ps n = Some k"
proof (induction ps n rule: count_stops.induct)
  case (2 point rest stop_count)
  from "2.prems" obtain v where v: "get_num (pd_speed_kmh point) 0 = Some v"
    using get_num_Some[of "pd_speed_kmh point" 0] by (auto simp: no_null_def)
  from "2.prems" have "list_all no_null rest" by simp
  from "2.IH"[OF v this] v show ?case by simp
qed simp

lemma movement_Some:
  assumes "list_all no_null ps"
  shows "\<exists>v1 v2 v3 v4. extract_movement_features ps =
     Some [(''stop_frequency'', v1), (''direction_changes'', v2), (''distance_actual'', v3),
           (''distance_straight_line'', v4)]"
proof -
  obtain k where k: "count_stops ps 0 = Some k"
    using count_stops_Some[OF assms] by blast
  have hl: "no_null (hd ps) \<and> no_null (last ps)" if "ps \<noteq> []"
    using assms that by (simp add: list_all_iff)
  have "\<exists>dh. calculate_duration_hours ps = Some dh"
  proof (cases "length ps < 2")
    case True
    then show ?thesis by (simp add: calculate_duration_hours_def)
  next
    case False
    then have "ps \<noteq> []" by auto
    from hl[OF this] obtain a b where "get_num (pd_timestamp (hd ps)) 0 = Some a"
      "get_num (pd_timestamp (last ps)) 0 = Some b"
      using get_num_Some[of "pd_timestamp (hd ps)" 0] get_num_Some[of "pd_timestamp (last ps)" 0]
      by (auto simp: no_null_def)
    then show ?thesis using False
      by (intro exI[of _ "(b - a) / 3600"]) (simp add: calculate_duration_hours_def)
  qed
  then obtain dh where dh: "calculate_duration_hours ps = Some dh" by blast
  have "\<exists>dc. calculate_direction_changes ps = Some dc"
    using direction_changes_loop_Some[OF assms, of 0]
    by (simp add: calculate_direction_changes_def)
  then obtain dc where dc: "calculate_direction_changes ps = Some dc" by blast
  have "\<exists>da. calculate_actual_distance ps = Some da"
    using actual_distance_loop_Some[OF assms, of 0]
    by (simp add: calculate_actual_distance_def)
  then obtain da where da: "calculate_actual_distance ps = Some da" by blast
  have "\<exists>ds. calculate_straight_line_distance ps = Some ds"
  proof (cases "length ps < 2")
    case True
    then show ?thesis by (simp add: calculate_straight_line_distance_def)
  next
    case False
    then have "ps \<noteq> []" by auto
    from hl[OF this] haversine_Some[of "hd ps" "last ps"] show ?thesis
      using False by (auto simp: calculate_straight_line_distance_def)
  qed
  then obtain ds where ds: "calculate_straight_line_distance ps = Some ds" by blast
  show ?thesis
    by (simp add: extract_movement_features_def k dh dc da ds Let_def)
qed

lemma time_Some:
  assumes "list_all no_null ps" "ps \<noteq> []" "list_all (timestamp_ok lt) ps"
  shows "\<exists>v1 v2 v3. extract_time_features lt ps =
     Some [(''duration_minutes'', v1), (''time_of_day'', v2), (''day_of_week'', v3)]"
proof -
  have "timestamp_ok lt (hd ps) \<and> timestamp_ok lt (last ps)"
    using assms by (simp add: list_all_iff)
  then obtain a b d1 d2 where "get_num (pd_timestamp (hd ps)) 0 = Some a"
      "get_num (pd_timestamp (last ps)) 0 = Some b"
      "datetime_fromtimestamp lt a = Some d1" "datetime_fromtimestamp lt b = Some d2"
    by (auto simp: timestamp_ok_def split: option.splits)
  then show ?thesis
    using assms(2) by (simp add: extract_time_features_def Let_def)
qed

lemma present_values_nonempty:
  "Num x \<in> set fs \<Longrightarrow> present_values fs \<noteq> []"
  by (induction fs rule: present_values.induct) auto

lemma speed_Some:
  assumes "Num x \<in> set (map pd_speed_kmh ps)"
  shows "\<exists>v1 v2 v3 v4 v5 v6 v7. extract_speed_features ps =
     [(''avg_speed_kmh'', v1), (''max_speed_kmh'', v2), (''speed_variance'', v3),
      (''speed_percentile_95'', v4), (''avg_acceleration'', v5), (''max_acceleration'', v6),
      (''acceleration_variance'', v7)]"
  using present_values_nonempty[OF assms]
  by (simp add: extract_speed_features_def Let_def)

lemma gps_Some:
  "\<exists>v1 v2 v3 v4. extract_gps_features ps =
     [(''avg_accuracy'', v1), (''gps_point_count'', v2), (''activity_confidence'', v3),
      (''activity_consistency'', v4)]"
  by (simp add: extract_gps_features_def Let_def)

lemma extract_features_populated:
  assumes len: "length gps_points \<ge> 10"
    and nn: "list_all no_null gps_points"
    and ok: "list_all (timestamp_ok lt) gps_points"
    and sp: "Num x \<in> set (map pd_speed_kmh gps_points)"
  shows "\<exists>feats. extract_features lt gps_points None = Some feats"
proof -
  let ?s = "sort_key (\<lambda>p. case pd_timestamp p of Num t \<Rightarrow> t | _ \<Rightarrow> 0) gps_points"
  have srt: "sort_by_timestamp gps_points = Some ?s"
    using nn by (auto simp: sort_by_timestamp_def list_ex_iff list_all_iff no_null_def)
  have nn': "list_all no_null ?s" using nn by (simp add: list_all_iff)
  have ok': "list_all (timestamp_ok lt) ?s" using ok by (simp add: list_all_iff)
  have sp': "Num x \<in> set (map pd_speed_kmh ?s)" using sp by simp
  have "gps_points \<noteq> []" using len by auto
  then have ne: "?s \<noteq> []" by (metis length_0_conv length_sort)
  from speed_Some[OF sp'] movement_Some[OF nn'] time_Some[OF nn' ne ok'] gps_Some[of ?s]
  obtain a1 a2 a3 a4 a5 a6 a7 b1 b2 b3 b4 c1 c2 c3 d1 d2 d3 d4 where
    e: "extract_speed_features ?s =
     [(''avg_speed_kmh'', a1), (''max_speed_kmh'', a2), (''speed_variance'', a3),
      (''speed_percentile_95'', a4), (''avg_acceleration'', a5), (''max_acceleration'', a6),
      (''acceleration_variance'', a7)]"
    "extract_movement_features ?s =
     Some [(''stop_frequency'', b1), (''direction_changes'', b2), (''distance_actual'', b3),
           (''distance_straight_line'', b4)]"
    "extract_time_features lt ?s =
     Some [(''duration_minutes'', c1), (''time_of_day'', c2), (''day_of_week'', c3)]"
    "extract_gps_features ?s =
     [(''avg_accuracy'', d1), (''gps_point_count'', d2), (''activity_confidence'', d3),
      (''activity_consistency'', d4)]"
    by blast
  show ?thesis
    using len
    by (simp add: extract_features_def srt e new_MLFeatures_def MLFeatures_fields_def)
qed

text \<open>
  Claim C9. \<open>extract_features\<close> returns \<open>None\<close> for fewer than 10 points. It also returns
  \<open>None\<close> for a list of any length in which no point carries a speed (the dict of speed
  features then lacks the three acceleration keys and the construction of the feature
  vector raises), and whenever sensor data is supplied (the key
  \<open>activity_confidence\<close> is then given twice).
\<close>

theorem extract_features_none_without_speeds:
  "(length ps1 < 10 \<longrightarrow> extract_features lt1 ps1 sd1 = None) \<and>
   (list_all (\<lambda>p. pd_speed_kmh p = Absent \<or> pd_speed_kmh p = Null) ps2 \<longrightarrow>
      extract_features lt2 ps2 sd2 = None) \<and>
   (sd3 \<noteq> [] \<longrightarrow> extract_features lt3 ps3 (Some sd3) = None)"
  using no_speeds_None[of ps2 lt2 sd2] with_sensor_data_None[of sd3 lt3 ps3]
  by (simp add: extract_features_def)

theorem extract_features_none_without_speeds_witness:
  "length (map (\<lambda>k. plain_point (real k)) [0..<10]) = 10 \<and>
   extract_features utc_localtime (map (\<lambda>k. plain_point (real k)) [0..<10]) None = None \<and>
   extract_features utc_localtime (map (\<lambda>k. moving_point (real k) 5) [0..<9]) None = None \<and>
   extract_features utc_localtime (map (\<lambda>k. moving_point (real k) 5) [0..<10])
     (Some [\<lparr>sn_accel_x = Num 0, sn_accel_y = Num 0, sn_accel_z = Num 9.8,
             sn_activity_confidence = Num 0.9\<rparr>]) = None"
  using extract_features_none_without_speeds
    [of "map (\<lambda>k. moving_point (real k) 5) [0..<9]" utc_localtime None
        "map (\<lambda>k. plain_point (real k)) [0..<10]" utc_localtime None
        "[\<lparr>sn_accel_x = Num 0, sn_accel_y = Num 0, sn_accel_z = Num 9.8,
           sn_activity_confidence = Num 0.9\<rparr>]" utc_localtime
        "map (\<lambda>k. moving_point (real k) 5) [0..<10]"]
  by (simp add: plain_point_def list_all_iff)

text \<open>With ten points that all carry a speed, and no sensor data, a vector is returned.\<close>

lemma extract_features_ten_moving_points:
  "\<exists>feats. extract_features utc_localtime (map (\<lambda>k. moving_point (real k) 5) [0..<10]) None = Some feats"
proof (rule extract_features_populated)
  show "10 \<le> length (map (\<lambda>k. moving_point (real k) 5) [0..<10])" by simp
  show "list_all no_null (map (\<lambda>k. moving_point (real k) 5) [0..<10])"
    by (simp add: list_all_iff no_null_def moving_point_def plain_point_def)
  have "round_half_even (real k * 1000000) = int k * 1000000" for k
    using floor_of_int[of "int k * 1000000", where ?'a = real]
    by (simp add: round_half_even_def Let_def del: floor_of_int)
  then show "list_all (timestamp_ok utc_localtime) (map (\<lambda>k. moving_point (real k) 5) [0..<10])"
    by (simp add: list_all_iff timestamp_ok_def moving_point_def plain_point_def
        datetime_fromtimestamp_def utc_localtime_def datetime_min_def datetime_max_def Let_def)
  show "Num 5 \<in> set (map pd_speed_kmh (map (\<lambda>k. moving_point (real k) 5) [0..<10]))"
    by (auto simp: moving_point_def plain_point_def image_iff intro!: exI[of _ 0])
qed



end
